theory Spec2Isabelle
  imports Main
begin

section \<open>JavaScript values\<close>

text \<open>
  The values that flow through \<^verbatim>\<open>index.js\<close>: log field maps, thrown values, hook
  results and timer slots. Numbers are the millisecond timestamps of
  \<^verbatim>\<open>new Date().getTime()\<close> and their differences, so they are integers; \<open>JNaN\<close> is the
  result of subtracting a non-number. \<open>JError m\<close> is an \<^verbatim>\<open>Error\<close> object with message \<open>m\<close>,
  \<open>JFunction n\<close> a built-in function, \<open>JObj\<close> a plain object with its own properties in
  insertion order.
\<close>

datatype jsval =
    JUndefined
  | JNull
  | JBool bool
  | JNum int
  | JNaN
  | JStr string
  | JObj "(string \<times> jsval) list"
  | JError string
  | JFunction string

text \<open>JavaScript truthiness, as tested by \<^verbatim>\<open>if (x)\<close>, \<^verbatim>\<open>!x\<close> and \<^verbatim>\<open>x || y\<close>.\<close>

fun truthy :: "jsval \<Rightarrow> bool" where
  "truthy JUndefined = False"
| "truthy JNull = False"
| "truthy (JBool b) = b"
| "truthy (JNum n) = (n \<noteq> 0)"
| "truthy JNaN = False"
| "truthy (JStr s) = (s \<noteq> [])"
| "truthy (JObj fs) = True"
| "truthy (JError m) = True"
| "truthy (JFunction n) = True"

text \<open>
  \<^verbatim>\<open>obj[k] = v\<close> on a plain object, as a list of its own properties: replace the
  property in place, or append it. Objects inherit from \<^verbatim>\<open>Object.prototype\<close>, so a
  store to the key \<^verbatim>\<open>__proto__\<close> of an object that does not own such a property reaches
  the inherited setter and creates no own property.
\<close>

fun set_prop :: "(string \<times> jsval) list \<Rightarrow> string \<Rightarrow> jsval \<Rightarrow> (string \<times> jsval) list" where
  "set_prop [] k v = (if k = ''__proto__'' then [] else [(k, v)])"
| "set_prop ((k', v') # fs) k v = (if k' = k then (k, v) # fs else (k', v') # set_prop fs k v)"

text \<open>\<^verbatim>\<open>data[k]\<close>: the property of an object, \<^verbatim>\<open>undefined\<close> when it has none.\<close>

fun get_prop :: "jsval \<Rightarrow> string \<Rightarrow> jsval" where
  "get_prop (JObj fs) k = (case map_of fs k of Some v \<Rightarrow> v | None \<Rightarrow> JUndefined)"
| "get_prop _ k = JUndefined"

text \<open>Own properties: whether a record carries the field at all, and with which value.\<close>

fun has_field :: "jsval \<Rightarrow> string \<Rightarrow> bool" where
  "has_field (JObj fs) k = (map_of fs k \<noteq> None)"
| "has_field _ k = False"

fun own_prop :: "jsval \<Rightarrow> string \<Rightarrow> jsval option" where
  "own_prop (JObj fs) k = map_of fs k"
| "own_prop _ k = None"

section \<open>Logger, context and effects\<close>

datatype level = Trace | Debug | Info | Warn | Error | Fatal

text \<open>
  The bunyan logger is an external collaborator. A call \<^verbatim>\<open>ctx.log.warn(a, b)\<close> is recorded as
  the event \<open>Log Warn [a, b]\<close>: the level is the method called, the list is the arguments.
  \<open>Next_called\<close> marks \<^verbatim>\<open>await next()\<close>, the run of the downstream handler chain,
  \<open>On_finished c\<close> the registration \<^verbatim>\<open>onFinished(ctx.response.res, ...)\<close> of the callback that
  closes over the captured error and the start time, and \<open>Finish_signal\<close> the moment the
  transport reports the response as finished.
\<close>

record closure =
  cl_err :: jsval
  cl_startTime :: int

datatype event =
    Log level "jsval list"
  | Next_called
  | On_finished closure
  | Finish_signal

datatype logger = Logger string

text \<open>
  The timer table \<^verbatim>\<open>ctx._timeContextStartTimes\<close> is a plain object created by \<^verbatim>\<open>{}\<close>.
  Its own properties hold a start time or \<^verbatim>\<open>null\<close>; a read \<^verbatim>\<open>startTimes[label]\<close> of a
  label it does not own falls through to \<^verbatim>\<open>Object.prototype\<close>, whose members are
  functions (and, for \<^verbatim>\<open>__proto__\<close>, the prototype object itself): \<open>Inherited\<close>.
\<close>

datatype slot = Stamp int | Cleared | Inherited string

record start_times =
  own :: "string \<rightharpoonup> slot"
  has_proto :: bool

definition object_prototype_names :: "string list" where
  "object_prototype_names =
     [''constructor'', ''toString'', ''toLocaleString'', ''valueOf'', ''hasOwnProperty'',
      ''isPrototypeOf'', ''propertyIsEnumerable'', ''__defineGetter__'', ''__defineSetter__'',
      ''__lookupGetter__'', ''__lookupSetter__'', ''__proto__'']"

text \<open>\<^verbatim>\<open>{}\<close>\<close>

definition empty_times :: start_times where
  "empty_times = \<lparr>own = Map.empty, has_proto = True\<rparr>"

text \<open>\<^verbatim>\<open>startTimes[label]\<close>; \<open>None\<close> is \<^verbatim>\<open>undefined\<close>.\<close>

definition lookup :: "start_times \<Rightarrow> string \<Rightarrow> slot option" where
  "lookup st label =
     (case own st label of
        Some v \<Rightarrow> Some v
      | None \<Rightarrow>
          if has_proto st \<and> label \<in> set object_prototype_names then Some (Inherited label)
          else None)"

text \<open>
  \<^verbatim>\<open>startTimes[label] = v\<close> for the two values the module stores, a number and \<^verbatim>\<open>null\<close>.
  On an object that still has its prototype, the label \<^verbatim>\<open>__proto__\<close> reaches the
  inherited setter: \<^verbatim>\<open>null\<close> removes the prototype, a number is ignored.
\<close>

definition store :: "start_times \<Rightarrow> string \<Rightarrow> slot \<Rightarrow> start_times" where
  "store st label v =
     (if label = ''__proto__'' \<and> has_proto st then
        (if v = Cleared then st\<lparr>has_proto := False\<rparr> else st)
      else st\<lparr>own := (own st)(label \<mapsto> v)\<rparr>)"

text \<open>Truthiness of \<^verbatim>\<open>startTimes[label]\<close>.\<close>

fun slot_truthy :: "slot option \<Rightarrow> bool" where
  "slot_truthy None = False"
| "slot_truthy (Some (Stamp t)) = (t \<noteq> 0)"
| "slot_truthy (Some Cleared) = False"
| "slot_truthy (Some (Inherited n)) = True"

text \<open>
  \<^verbatim>\<open>new Date().getTime() - startTime\<close>: a number minus a number, \<^verbatim>\<open>NaN\<close> when the slot is
  \<^verbatim>\<open>undefined\<close>, a function or an object, and \<^verbatim>\<open>null\<close> counts as 0.
\<close>

fun minus_slot :: "int \<Rightarrow> slot option \<Rightarrow> jsval" where
  "minus_slot now (Some (Stamp t)) = JNum (now - t)"
| "minus_slot now (Some Cleared) = JNum now"
| "minus_slot now (Some (Inherited n)) = JNaN"
| "minus_slot now None = JNaN"

text \<open>
  The part of the Koa context the middleware reads. \<open>log\<close> is \<open>None\<close> when \<^verbatim>\<open>ctx.log\<close> is
  \<^verbatim>\<open>null\<close> or \<^verbatim>\<open>undefined\<close>; \<open>timeContextStartTimes\<close> is \<^verbatim>\<open>ctx._timeContextStartTimes\<close>.
\<close>

record koa_context =
  status :: int
  req :: jsval
  res :: jsval
  req_method :: string
  req_originalUrl :: string
  log :: "logger option"
  timeContextStartTimes :: start_times

text \<open>What a call of user or library code ends with: a thrown value, or a result.\<close>

datatype 'a outcome = Threw jsval | Done 'a

definition TypeError :: "string \<Rightarrow> jsval" where
  "TypeError what = JError (''TypeError: '' @ what)"

section \<open>The hook runner\<close>

text \<open>
  A hook is a user function called as \<^verbatim>\<open>func.call(ctx, data)\<close> or
  \<^verbatim>\<open>func.call(ctx, data, err)\<close>. It may mutate \<^verbatim>\<open>data\<close> in place before it returns or
  throws, so both results carry the state of the \<^verbatim>\<open>data\<close> object the hook leaves behind:
  \<open>Returned v d\<close> returns \<open>v\<close> (\<open>JUndefined\<close> for no \<^verbatim>\<open>return\<close>), \<open>Thrown e d\<close> throws \<open>e\<close>.
  The first argument is \<^verbatim>\<open>this\<close>, \<open>None\<close> when it is \<^verbatim>\<open>undefined\<close>; the last is the error
  argument, \<open>None\<close> when the call passes only \<^verbatim>\<open>data\<close>. A hook in this form acts on
  the \<^verbatim>\<open>data\<close> it is handed only: it leaves the context as it is, log calls of its own are
  not recorded, and what it returns is a value, not an object shared with another call.
  Hooks that return or keep objects of their own are those of the section on objects
  with identity.
\<close>

datatype hook_result = Returned jsval jsval | Thrown jsval jsval

type_synonym hook = "koa_context option \<Rightarrow> jsval \<Rightarrow> jsval option \<Rightarrow> hook_result"

text \<open>
  \<^verbatim>\<open>function updateFields(ctx, func, data, err)\<close>. The events it logs are appended to
  \<open>tr\<close>. In the \<^verbatim>\<open>catch\<close> block \<^verbatim>\<open>ctx.log.error(e)\<close> itself throws a \<^verbatim>\<open>TypeError\<close> when
  \<^verbatim>\<open>ctx\<close> is \<^verbatim>\<open>undefined\<close> or \<^verbatim>\<open>ctx.log\<close> is \<^verbatim>\<open>null\<close>.
\<close>

definition updateFields ::
  "koa_context option \<Rightarrow> hook option \<Rightarrow> jsval \<Rightarrow> jsval \<Rightarrow> event list \<Rightarrow> (jsval \<times> event list) outcome" where
  "updateFields ctx func data err tr =
     (case func of
        None \<Rightarrow> Done (data, tr)
      | Some f \<Rightarrow>
          (case (if truthy err then f ctx data (Some err) else f ctx data None) of
             Returned v data' \<Rightarrow> Done (if truthy v then v else data', tr)
           | Thrown e data' \<Rightarrow>
               (case ctx of
                  None \<Rightarrow> Threw (TypeError ''cannot read property log of undefined'')
                | Some c \<Rightarrow>
                    (case log c of
                       None \<Rightarrow> Threw (TypeError ''cannot read property error of null'')
                     | Some l \<Rightarrow> Done (data', tr @ [Log Error [e]])))))"

section \<open>Message formatting\<close>

text \<open>
  Decimal rendering of a number, \<^verbatim>\<open>String(v)\<close> as string concatenation applies it, and the
  \<^verbatim>\<open>%s\<close>, \<^verbatim>\<open>%d\<close> and \<^verbatim>\<open>%%\<close> directives of Node's \<^verbatim>\<open>util.format\<close>, which the default
  message formatters call and which bunyan applies to the arguments of a log call.
\<close>

fun show_nat :: "nat \<Rightarrow> string" where
  "show_nat n =
     (if n < 10 then [''0123456789'' ! n]
      else show_nat (n div 10) @ [''0123456789'' ! (n mod 10)])"

declare show_nat.simps [simp del]

definition show_int :: "int \<Rightarrow> string" where
  "show_int i = (if i < 0 then CHR ''-'' # show_nat (nat (- i)) else show_nat (nat i))"

fun js_to_string :: "jsval \<Rightarrow> string" where
  "js_to_string JUndefined = ''undefined''"
| "js_to_string JNull = ''null''"
| "js_to_string (JBool b) = (if b then ''true'' else ''false'')"
| "js_to_string (JNum n) = show_int n"
| "js_to_string JNaN = ''NaN''"
| "js_to_string (JStr s) = s"
| "js_to_string (JObj fs) = ''[object Object]''"
| "js_to_string (JError m) = ''Error: '' @ m"
| "js_to_string (JFunction n) = ''function '' @ n @ ''() { [native code] }''"

fun format_d :: "jsval \<Rightarrow> string" where
  "format_d (JNum n) = show_int n"
| "format_d _ = ''NaN''"

fun util_format :: "string \<Rightarrow> jsval list \<Rightarrow> string" where
  "util_format [] args = concat (map (\<lambda>a. CHR '' '' # js_to_string a) args)"
| "util_format [c] args = c # util_format [] args"
| "util_format (c # d # cs) args =
     (if c = CHR ''%'' \<and> d = CHR ''%'' then CHR ''%'' # util_format cs args
      else if c = CHR ''%'' \<and> d = CHR ''s'' then
        (case args of [] \<Rightarrow> c # d # util_format cs []
         | a # as \<Rightarrow> js_to_string a @ util_format cs as)
      else if c = CHR ''%'' \<and> d = CHR ''d'' then
        (case args of [] \<Rightarrow> c # d # util_format cs []
         | a # as \<Rightarrow> format_d a @ util_format cs as)
      else c # util_format (d # cs) args)"

text \<open>
  The message bunyan gives a record logged as \<^verbatim>\<open>log.warn(fmt, arg, ...)\<close>: the first
  argument is the format string.
\<close>

fun message :: "jsval list \<Rightarrow> string" where
  "message (JStr fmt # args) = util_format fmt args"
| "message _ = []"

section \<open>requestLogger\<close>

text \<open>
  The options object of \<^verbatim>\<open>requestLogger(opts)\<close>; \<open>None\<close> is an option left out. The
  level function and the formatters are user functions that return normally; the level is
  one of bunyan's six methods.
\<close>

record requestLogger_opts =
  durationField :: "string option"
  levelFn :: "(koa_context \<Rightarrow> jsval \<Rightarrow> level) option"
  updateLogFields :: "hook option"
  updateRequestLogFields :: "hook option"
  updateResponseLogFields :: "hook option"
  formatRequestMessage :: "(koa_context \<Rightarrow> jsval \<Rightarrow> string) option"
  formatResponseMessage :: "(koa_context \<Rightarrow> jsval \<Rightarrow> string) option"

text \<open>\<^verbatim>\<open>opts.levelFn || function(ctx, err) {...}\<close>\<close>

definition the_levelFn :: "requestLogger_opts \<Rightarrow> koa_context \<Rightarrow> jsval \<Rightarrow> level" where
  "the_levelFn opts =
     (case levelFn opts of
        Some f \<Rightarrow> f
      | None \<Rightarrow> (\<lambda>ctx err.
          if status ctx \<ge> 500 then Error
          else if status ctx \<ge> 400 then Warn
          else Info))"

text \<open>\<^verbatim>\<open>opts.durationField || 'duration'\<close>: the empty string is falsy too.\<close>

definition the_durationField :: "requestLogger_opts \<Rightarrow> string" where
  "the_durationField opts =
     (case durationField opts of
        None \<Rightarrow> ''duration''
      | Some s \<Rightarrow> if s = [] then ''duration'' else s)"

definition the_formatRequestMessage :: "requestLogger_opts \<Rightarrow> koa_context \<Rightarrow> jsval \<Rightarrow> string" where
  "the_formatRequestMessage opts =
     (case formatRequestMessage opts of
        Some f \<Rightarrow> f
      | None \<Rightarrow> (\<lambda>ctx data.
          util_format ''  <-- %s %s'' [JStr (req_method ctx), JStr (req_originalUrl ctx)]))"

definition the_formatResponseMessage :: "requestLogger_opts \<Rightarrow> koa_context \<Rightarrow> jsval \<Rightarrow> string" where
  "the_formatResponseMessage opts =
     (case formatResponseMessage opts of
        Some f \<Rightarrow> f
      | None \<Rightarrow> (\<lambda>ctx data.
          util_format ''  --> %s %s %d %sms''
            [JStr (req_method ctx), JStr (req_originalUrl ctx), JNum (status ctx),
             get_prop data (the_durationField opts)]))"

text \<open>
  \<^verbatim>\<open>onResponseFinished(ctx)\<close>, the callback of lines 152 to 178. The closure holds
  \<^verbatim>\<open>err\<close> and \<^verbatim>\<open>startTime\<close>; \<open>ctx\<close> is the context as it is when the callback runs and
  \<open>now\<close> the clock reading of \<^verbatim>\<open>new Date().getTime()\<close> at that moment. The result is the
  context with its logger removed and the events logged.
\<close>

definition onResponseFinished ::
  "requestLogger_opts \<Rightarrow> closure \<Rightarrow> koa_context \<Rightarrow> int \<Rightarrow> event list
     \<Rightarrow> (koa_context \<times> event list) outcome" where
  "onResponseFinished opts c ctx now tr =
     (let err = cl_err c;
          responseData = [(''req'', req ctx), (''res'', res ctx)];
          responseData = (if truthy err then set_prop responseData ''err'' err else responseData);
          responseData = set_prop responseData (the_durationField opts) (JNum (now - cl_startTime c))
      in case updateFields (Some ctx) (updateLogFields opts) (JObj responseData) JUndefined tr of
           Threw x \<Rightarrow> Threw x
         | Done (responseData, tr) \<Rightarrow>
             (case updateFields (Some ctx) (updateResponseLogFields opts) responseData err tr of
                Threw x \<Rightarrow> Threw x
              | Done (responseData, tr) \<Rightarrow>
                  (let level = the_levelFn opts ctx err
                   in case log ctx of
                        None \<Rightarrow> Threw (TypeError ''cannot read property of null'')
                      | Some l \<Rightarrow>
                          Done (ctx\<lparr>log := None\<rparr>,
                                tr @ [Log level [responseData,
                                   JStr (the_formatResponseMessage opts ctx responseData)]]))))"

text \<open>What the promise of an \<^verbatim>\<open>async\<close> middleware settles to.\<close>

datatype settled = Resolved | Rejected jsval

text \<open>
  \<^verbatim>\<open>async function requestLogger(ctx, next)\<close>, lines 139 to 193. \<open>this\<close> is the
  \<^verbatim>\<open>this\<close> the function is called with: the file is in strict mode and the function is
  not an arrow function, so a plain call \<^verbatim>\<open>fn(ctx, next)\<close>, which is how koa-compose
  calls middleware, leaves it \<^verbatim>\<open>undefined\<close> (\<open>None\<close>). \<open>startTime\<close> is the clock reading
  of line 149. \<open>nxt\<close> is how \<^verbatim>\<open>await next()\<close> ends: \<open>None\<close> when it returns, \<open>Some e\<close>
  when it throws \<open>e\<close>. The result is the list of effects in the order they happen and how
  the middleware's promise settles.
\<close>

definition requestLogger ::
  "koa_context option \<Rightarrow> requestLogger_opts \<Rightarrow> koa_context \<Rightarrow> int \<Rightarrow> jsval option
     \<Rightarrow> event list \<times> settled" where
  "requestLogger this opts ctx startTime nxt =
     (let requestData = JObj [(''req'', req ctx)]
      in case updateFields this (updateLogFields opts) requestData JUndefined [] of
           Threw x \<Rightarrow> ([], Rejected x)
         | Done (requestData, tr) \<Rightarrow>
             (case updateFields this (updateRequestLogFields opts) requestData JUndefined tr of
                Threw x \<Rightarrow> (tr, Rejected x)
              | Done (requestData, tr) \<Rightarrow>
                  (case log ctx of
                     None \<Rightarrow> (tr, Rejected (TypeError ''cannot read property info of null''))
                   | Some l \<Rightarrow>
                       (let tr = tr @ [Log Info [requestData,
                                   JStr (the_formatRequestMessage opts ctx requestData)]];
                            err = (case nxt of None \<Rightarrow> JUndefined | Some e \<Rightarrow> e);
                            tr = tr @ [Next_called];
                            tr = tr @ [On_finished \<lparr>cl_err = err, cl_startTime = startTime\<rparr>]
                        in (tr, if truthy err then Rejected err else Resolved)))))"

text \<open>
  The on-finished library calls a registered listener once, when the response has
  finished. \<open>fire\<close> runs the callbacks registered in a trace, in order, on the context as
  it is then; a callback that throws ends the run with the events logged so far.
\<close>

fun fire ::
  "requestLogger_opts \<Rightarrow> event list \<Rightarrow> koa_context \<Rightarrow> int \<Rightarrow> event list \<Rightarrow> event list" where
  "fire opts [] ctx now tr = tr"
| "fire opts (On_finished c # es) ctx now tr =
     (case onResponseFinished opts c ctx now tr of
        Threw x \<Rightarrow> tr
      | Done (ctx', tr') \<Rightarrow> fire opts es ctx' now tr')"
| "fire opts (e # es) ctx now tr = fire opts es ctx now tr"

text \<open>
  One request from the middleware's call to the end of the response: the effects of
  \<open>requestLogger\<close>, then the finish signal at clock reading \<open>now\<close> with the context
  \<open>ctx_fin\<close> the rest of the pipeline has left, then the registered callbacks.
\<close>

definition request_lifecycle ::
  "koa_context option \<Rightarrow> requestLogger_opts \<Rightarrow> koa_context \<Rightarrow> int \<Rightarrow> jsval option
     \<Rightarrow> koa_context \<Rightarrow> int \<Rightarrow> event list" where
  "request_lifecycle this opts ctx startTime nxt ctx_fin now =
     (let tr = fst (requestLogger this opts ctx startTime nxt)
      in fire opts tr ctx_fin now (tr @ [Finish_signal]))"

section \<open>timeContext\<close>

record timeContext_opts =
  logLevel :: "level option"
  timer_updateLogFields :: "hook option"

text \<open>\<^verbatim>\<open>opts.logLevel || 'trace'\<close>\<close>

definition the_logLevel :: "timeContext_opts \<Rightarrow> level" where
  "the_logLevel opts = (case logLevel opts of None \<Rightarrow> Trace | Some l \<Rightarrow> l)"

text \<open>The middleware gives every request a fresh table before the handlers run.\<close>

definition timeContext :: "koa_context \<Rightarrow> koa_context" where
  "timeContext ctx = ctx\<lparr>timeContextStartTimes := empty_times\<rparr>"

text \<open>
  \<^verbatim>\<open>function time(ctx, label)\<close>, lines 239 to 247; \<open>now\<close> is the clock reading of
  \<^verbatim>\<open>new Date().getTime()\<close>.
\<close>

definition time ::
  "koa_context \<Rightarrow> string \<Rightarrow> int \<Rightarrow> event list \<Rightarrow> (koa_context \<times> event list) outcome" where
  "time ctx label now tr =
     (let startTimes = timeContextStartTimes ctx
      in case (if slot_truthy (lookup startTimes label) then
                 (case log ctx of
                    None \<Rightarrow> Threw (TypeError ''cannot read property warn of null'')
                  | Some l \<Rightarrow>
                      Done (tr @ [Log Warn [JStr ''time() called for previously used label %s'',
                                            JStr label]]))
               else Done tr) of
           Threw x \<Rightarrow> Threw x
         | Done tr \<Rightarrow>
             Done (ctx\<lparr>timeContextStartTimes := store startTimes label (Stamp now)\<rparr>, tr))"

text \<open>\<^verbatim>\<open>function timeEnd(ctx, label)\<close>, lines 249 to 270.\<close>

definition timeEnd ::
  "timeContext_opts \<Rightarrow> koa_context \<Rightarrow> string \<Rightarrow> int \<Rightarrow> event list
     \<Rightarrow> (koa_context \<times> event list) outcome" where
  "timeEnd opts ctx label now tr =
     (let startTimes = timeContextStartTimes ctx;
          startTime = lookup startTimes label
      in if \<not> slot_truthy startTime then
           (case log ctx of
              None \<Rightarrow> Threw (TypeError ''cannot read property warn of null'')
            | Some l \<Rightarrow>
                Done (ctx, tr @ [Log Warn [JStr ''timeEnd() called without time() for label %s'',
                                           JStr label]]))
         else
           (let duration = minus_slot now startTime;
                fields = JObj [(''label'', JStr label),
                               (''duration'', duration),
                               (''msg'', JStr (label @ '': '' @ js_to_string duration @ ''ms''))]
            in case updateFields (Some ctx) (timer_updateLogFields opts) fields JUndefined tr of
                 Threw x \<Rightarrow> Threw x
               | Done (fields, tr) \<Rightarrow>
                   (case log ctx of
                      None \<Rightarrow> Threw (TypeError ''cannot read property of null'')
                    | Some l \<Rightarrow>
                        Done (ctx\<lparr>timeContextStartTimes := store startTimes label Cleared\<rparr>,
                              tr @ [Log (the_logLevel opts) [fields]]))))"

section \<open>Derived notions and example inputs\<close>

text \<open>The call the runner makes: with the error argument when \<^verbatim>\<open>err\<close> is truthy.\<close>

definition hook_call :: "hook \<Rightarrow> koa_context option \<Rightarrow> jsval \<Rightarrow> jsval \<Rightarrow> hook_result" where
  "hook_call f ctx data err = (if truthy err then f ctx data (Some err) else f ctx data None)"

text \<open>A request context with a logger attached and a fresh timer table.\<close>

definition ctx0 :: koa_context where
  "ctx0 = \<lparr>status = 200, req = JObj [(''url'', JStr ''/'')],
           res = JObj [(''statusCode'', JNum 200)],
           req_method = ''GET'', req_originalUrl = ''/'', log = Some (Logger ''test''),
           timeContextStartTimes = empty_times\<rparr>"

text \<open>
  The timer hook of the test \<^verbatim>\<open>allows returning custom log fields\<close>, which returns a
  new object, and a hook that adds a field in place and returns nothing.
\<close>

definition replacing_hook :: hook where
  "replacing_hook this data err =
     Returned (JObj [(''request_trace'', get_prop data ''label'')]) data"

definition mutating_hook :: hook where
  "mutating_hook this data err =
     (case data of
        JObj fs \<Rightarrow> Returned JUndefined (JObj (set_prop fs ''foo'' (JStr ''bar'')))
      | _ \<Rightarrow> Returned JUndefined data)"

text \<open>\<^verbatim>\<open>requestLogger()\<close> called without options.\<close>

definition default_opts :: requestLogger_opts where
  "default_opts = \<lparr>durationField = None, levelFn = None, updateLogFields = None,
     updateRequestLogFields = None, updateResponseLogFields = None,
     formatRequestMessage = None, formatResponseMessage = None\<rparr>"

text \<open>
  The hook of the test \<^verbatim>\<open>logs errors in update methods and then continues\<close>:
  \<^verbatim>\<open>function(fields) { throw new Error('clumsy'); }\<close>
\<close>

definition throwing_hook :: hook where
  "throwing_hook this data err = Thrown (JError ''clumsy'') data"

text \<open>
  The field map \<^verbatim>\<open>onResponseFinished\<close> has built at line 162, before it runs the hooks:
  \<^verbatim>\<open>req\<close>, \<^verbatim>\<open>res\<close>, \<^verbatim>\<open>err\<close> when the captured error is truthy, and the duration.
\<close>

definition response_fields :: "requestLogger_opts \<Rightarrow> closure \<Rightarrow> koa_context \<Rightarrow> int \<Rightarrow> jsval" where
  "response_fields opts c ctx now =
     JObj (set_prop
       (if truthy (cl_err c) then set_prop [(''req'', req ctx), (''res'', res ctx)] ''err'' (cl_err c)
        else [(''req'', req ctx), (''res'', res ctx)])
       (the_durationField opts) (JNum (now - cl_startTime c)))"

text \<open>The context after Koa's error handler has set the status to 500.\<close>

definition ctx500 :: koa_context where
  "ctx500 = ctx0\<lparr>status := 500, res := JObj [(''statusCode'', JNum 500)]\<rparr>"

text \<open>A response hook that marks the record when it is handed an error.\<close>

definition error_handled_hook :: hook where
  "error_handled_hook this data err =
     (case data of
        JObj fs \<Rightarrow>
          (case err of
             Some e \<Rightarrow>
               if truthy e then Returned JUndefined (JObj (set_prop fs ''error_handled'' (JBool True)))
               else Returned JUndefined data
           | None \<Rightarrow> Returned JUndefined data)
      | _ \<Rightarrow> Returned JUndefined data)"

text \<open>\<^verbatim>\<open>delete obj[k]\<close> on a plain object.\<close>

definition del_prop :: "(string \<times> jsval) list \<Rightarrow> string \<Rightarrow> (string \<times> jsval) list" where
  "del_prop fs k = filter (\<lambda>p. fst p \<noteq> k) fs"

text \<open>The record a hook error leaves in the log: \<^verbatim>\<open>ctx.log.error(e)\<close>.\<close>

fun is_hook_error :: "event \<Rightarrow> bool" where
  "is_hook_error (Log Error [x]) = True"
| "is_hook_error _ = False"

text \<open>
  The field maps of the request and completion records in a trace: the first argument of
  every log call of the form \<^verbatim>\<open>log.level(fields, message)\<close>.
\<close>

fun records :: "event list \<Rightarrow> jsval list" where
  "records [] = []"
| "records (Log lv [d, m] # es) = d # records es"
| "records (e # es) = records es"

text \<open>
  The three hooks of the test \<^verbatim>\<open>allows adding fields to request/response log data\<close>.
\<close>

definition test_updateLogFields :: hook where
  "test_updateLogFields this data err =
     (case data of
        JObj fs \<Rightarrow>
          Returned JUndefined
            (JObj (set_prop (set_prop (set_prop fs ''foo'' (JStr ''bar''))
                     ''baz1'' (JStr ''fizz'')) ''baz2'' (JStr ''fuzz'')))
      | _ \<Rightarrow> Returned JUndefined data)"

definition test_updateRequestLogFields :: hook where
  "test_updateRequestLogFields this data err =
     (case data of
        JObj fs \<Rightarrow>
          Returned JUndefined (JObj (del_prop (set_prop fs ''addedToReq'' (JStr ''hello'')) ''baz1''))
      | _ \<Rightarrow> Returned JUndefined data)"

definition test_updateResponseLogFields :: hook where
  "test_updateResponseLogFields this data err =
     (case data of
        JObj fs \<Rightarrow>
          (let fs = del_prop (set_prop fs ''addedToRes'' (JStr ''world'')) ''baz2''
           in Returned JUndefined
                (JObj (case err of
                         None \<Rightarrow> fs
                       | Some e \<Rightarrow>
                           if truthy e then set_prop fs ''error_handled'' (JBool True) else fs)))
      | _ \<Rightarrow> Returned JUndefined data)"

definition test_opts :: requestLogger_opts where
  "test_opts = default_opts\<lparr>updateLogFields := Some test_updateLogFields,
     updateRequestLogFields := Some test_updateRequestLogFields,
     updateResponseLogFields := Some test_updateResponseLogFields\<rparr>"

text \<open>
  The timer table never owns a \<^verbatim>\<open>__proto__\<close> property while it has its prototype:
  such a store goes to the inherited setter. \<open>time\<close> and \<open>timeEnd\<close> keep this.
\<close>

definition wf_times :: "start_times \<Rightarrow> bool" where
  "wf_times st = (has_proto st \<longrightarrow> own st ''__proto__'' = None)"

text \<open>\<^verbatim>\<open>timeContext()\<close> called without options.\<close>

definition default_timer_opts :: timeContext_opts where
  "default_timer_opts = \<lparr>logLevel = None, timer_updateLogFields = None\<rparr>"

text \<open>
  The context after \<^verbatim>\<open>ctx.time('x')\<close> at clock reading 1000, and after the same call at
  clock reading 0.
\<close>

definition ctx_x :: koa_context where
  "ctx_x = ctx0\<lparr>timeContextStartTimes := store empty_times ''x'' (Stamp 1000)\<rparr>"

definition ctx_z :: koa_context where
  "ctx_z = ctx0\<lparr>timeContextStartTimes := store empty_times ''x'' (Stamp 0)\<rparr>"

text \<open>
  A hook preserves the field \<open>k\<close> when it is absent or when every call of it, returning
  or throwing, leaves the resulting data with the own property \<open>k\<close> it was handed: the
  same value, or none as before.
\<close>

definition hook_preserves :: "hook option \<Rightarrow> string \<Rightarrow> bool" where
  "hook_preserves h k =
     (case h of
        None \<Rightarrow> True
      | Some f \<Rightarrow>
          (\<forall>c d e. case f c d e of
                      Returned v d' \<Rightarrow> own_prop (if truthy v then v else d') k = own_prop d k
                    | Thrown x d' \<Rightarrow> own_prop d' k = own_prop d k))"

text \<open>\<^verbatim>\<open>function(ctx, err) { return err === 0 ? 'fatal' : 'debug'; }\<close>\<close>

definition zero_levelFn :: "koa_context \<Rightarrow> jsval \<Rightarrow> level" where
  "zero_levelFn ctx err = (if err = JNum 0 then Fatal else Debug)"

text \<open>The same effect with \<open>v\<close> as the error a registered callback has captured.\<close>

fun with_err :: "jsval \<Rightarrow> event \<Rightarrow> event" where
  "with_err v (On_finished c) = On_finished (c\<lparr>cl_err := v\<rparr>)"
| "with_err v e = e"


section \<open>Objects with identity\<close>

text \<open>
  \<open>updateFields\<close> returns the very object a hook returns, or the \<^verbatim>\<open>data\<close> object
  itself, and hooks may keep objects of their own between calls. Where it matters which
  object a record is built from, field maps live in a store: a heap is the list of the
  own properties of every object, an object's address is its index, and data is a
  primitive value or the address of an object. The functions of this section are the
  ones above with the store written out; their events carry the fields the logged
  object has at the moment of the log call.
\<close>

type_synonym heap = "(string \<times> jsval) list list"

datatype hval = Prim jsval | Ref nat

fun h_truthy :: "hval \<Rightarrow> bool" where
  "h_truthy (Prim v) = truthy v"
| "h_truthy (Ref a) = True"

text \<open>The own properties of the object at an address.\<close>

definition deref :: "heap \<Rightarrow> nat \<Rightarrow> (string \<times> jsval) list" where
  "deref h a = (if a < length h then h ! a else [])"

text \<open>What a log call records of its first argument.\<close>

fun fields_of :: "heap \<Rightarrow> hval \<Rightarrow> jsval" where
  "fields_of h (Prim v) = v"
| "fields_of h (Ref a) = JObj (deref h a)"

text \<open>An object literal: a new object at the next address.\<close>

definition alloc :: "heap \<Rightarrow> (string \<times> jsval) list \<Rightarrow> nat \<times> heap" where
  "alloc h fs = (length h, h @ [fs])"

text \<open>An in-place change of the object that \<open>d\<close> refers to; none when \<open>d\<close> is a primitive.\<close>

fun mutate :: "heap \<Rightarrow> hval \<Rightarrow> ((string \<times> jsval) list \<Rightarrow> (string \<times> jsval) list) \<Rightarrow> heap" where
  "mutate h (Ref a) f = (if a < length h then h[a := f (h ! a)] else h)"
| "mutate h (Prim v) f = h"

text \<open>
  A hook with the store: it is handed the heap and returns the heap it leaves, so it can
  change \<^verbatim>\<open>data\<close> in place, change or return objects of its own, and create new ones.
\<close>

datatype sres = SReturned hval | SThrown jsval

type_synonym shook = "heap \<Rightarrow> koa_context option \<Rightarrow> hval \<Rightarrow> jsval option \<Rightarrow> sres \<times> heap"

record shared_hooks =
  sh_updateLogFields :: "shook option"
  sh_updateRequestLogFields :: "shook option"
  sh_updateResponseLogFields :: "shook option"

text \<open>\<^verbatim>\<open>function updateFields(ctx, func, data, err)\<close>, lines 196 to 209, with the store.\<close>

definition updateFields_h ::
  "koa_context option \<Rightarrow> shook option \<Rightarrow> hval \<Rightarrow> jsval \<Rightarrow> heap \<Rightarrow> event list
     \<Rightarrow> (hval \<times> heap \<times> event list) outcome" where
  "updateFields_h ctx func data err h tr =
     (case func of
        None \<Rightarrow> Done (data, h, tr)
      | Some f \<Rightarrow>
          (case (if truthy err then f h ctx data (Some err) else f h ctx data None) of
             (SReturned v, h') \<Rightarrow> Done (if h_truthy v then v else data, h', tr)
           | (SThrown e, h') \<Rightarrow>
               (case ctx of
                  None \<Rightarrow> Threw (TypeError ''cannot read property log of undefined'')
                | Some c \<Rightarrow>
                    (case log c of
                       None \<Rightarrow> Threw (TypeError ''cannot read property error of null'')
                     | Some l \<Rightarrow> Done (data, h', tr @ [Log Error [e]])))))"

text \<open>
  \<^verbatim>\<open>onResponseFinished(ctx)\<close>, lines 152 to 178, with the store. The options record
  supplies the duration field, the level function and the formatter; the hooks are those
  of \<open>hk\<close>.
\<close>

definition onResponseFinished_h ::
  "requestLogger_opts \<Rightarrow> shared_hooks \<Rightarrow> closure \<Rightarrow> koa_context \<Rightarrow> int \<Rightarrow> heap \<Rightarrow> event list
     \<Rightarrow> (koa_context \<times> heap \<times> event list) outcome" where
  "onResponseFinished_h opts hk c ctx now h tr =
     (let err = cl_err c;
          (a, h) = alloc h [(''req'', req ctx), (''res'', res ctx)];
          responseData = Ref a;
          h = (if truthy err then mutate h responseData (\<lambda>fs. set_prop fs ''err'' err) else h);
          h = mutate h responseData
                (\<lambda>fs. set_prop fs (the_durationField opts) (JNum (now - cl_startTime c)))
      in case updateFields_h (Some ctx) (sh_updateLogFields hk) responseData JUndefined h tr of
           Threw x \<Rightarrow> Threw x
         | Done (responseData, h, tr) \<Rightarrow>
             (case updateFields_h (Some ctx) (sh_updateResponseLogFields hk) responseData err h tr of
                Threw x \<Rightarrow> Threw x
              | Done (responseData, h, tr) \<Rightarrow>
                  (let level = the_levelFn opts ctx err
                   in case log ctx of
                        None \<Rightarrow> Threw (TypeError ''cannot read property of null'')
                      | Some l \<Rightarrow>
                          Done (ctx\<lparr>log := None\<rparr>, h,
                                tr @ [Log level [fields_of h responseData,
                                   JStr (the_formatResponseMessage opts ctx
                                           (fields_of h responseData))]]))))"

text \<open>
  \<^verbatim>\<open>async function requestLogger(ctx, next)\<close>, lines 139 to 193, with the store. The
  third component is the heap the request phase leaves.
\<close>

definition requestLogger_h ::
  "koa_context option \<Rightarrow> requestLogger_opts \<Rightarrow> shared_hooks \<Rightarrow> koa_context \<Rightarrow> int
     \<Rightarrow> jsval option \<Rightarrow> heap \<Rightarrow> event list \<times> settled \<times> heap" where
  "requestLogger_h this opts hk ctx startTime nxt h =
     (let (a, h) = alloc h [(''req'', req ctx)];
          requestData = Ref a
      in case updateFields_h this (sh_updateLogFields hk) requestData JUndefined h [] of
           Threw x \<Rightarrow> ([], Rejected x, h)
         | Done (requestData, h, tr) \<Rightarrow>
             (case updateFields_h this (sh_updateRequestLogFields hk) requestData JUndefined h tr of
                Threw x \<Rightarrow> (tr, Rejected x, h)
              | Done (requestData, h, tr) \<Rightarrow>
                  (case log ctx of
                     None \<Rightarrow> (tr, Rejected (TypeError ''cannot read property info of null''), h)
                   | Some l \<Rightarrow>
                       (let tr = tr @ [Log Info [fields_of h requestData,
                                   JStr (the_formatRequestMessage opts ctx
                                           (fields_of h requestData))]];
                            err = (case nxt of None \<Rightarrow> JUndefined | Some e \<Rightarrow> e);
                            tr = tr @ [Next_called];
                            tr = tr @ [On_finished \<lparr>cl_err = err, cl_startTime = startTime\<rparr>]
                        in (tr, if truthy err then Rejected err else Resolved, h)))))"

fun fire_h ::
  "requestLogger_opts \<Rightarrow> shared_hooks \<Rightarrow> event list \<Rightarrow> koa_context \<Rightarrow> int \<Rightarrow> heap
     \<Rightarrow> event list \<Rightarrow> event list" where
  "fire_h opts hk [] ctx now h tr = tr"
| "fire_h opts hk (On_finished c # es) ctx now h tr =
     (case onResponseFinished_h opts hk c ctx now h tr of
        Threw x \<Rightarrow> tr
      | Done (ctx', h', tr') \<Rightarrow> fire_h opts hk es ctx' now h' tr')"
| "fire_h opts hk (e # es) ctx now h tr = fire_h opts hk es ctx now h tr"

text \<open>
  One request with the store: the callback finds the heap as the request phase left it
  (the handler chain is taken not to touch the objects of the hooks).
\<close>

definition request_lifecycle_h ::
  "koa_context option \<Rightarrow> requestLogger_opts \<Rightarrow> shared_hooks \<Rightarrow> koa_context \<Rightarrow> int
     \<Rightarrow> jsval option \<Rightarrow> koa_context \<Rightarrow> int \<Rightarrow> heap \<Rightarrow> event list" where
  "request_lifecycle_h this opts hk ctx startTime nxt ctx_fin now h =
     (case requestLogger_h this opts hk ctx startTime nxt h of
        (tr, s, h') \<Rightarrow> fire_h opts hk tr ctx_fin now h' (tr @ [Finish_signal]))"






definition test_updateRequestLogFields_h :: shook where
  "test_updateRequestLogFields_h h this d err =
     (SReturned (Prim JUndefined),
      mutate h d (\<lambda>fs. del_prop (set_prop fs ''addedToReq'' (JStr ''hello'')) ''baz1''))"



text \<open>
  A global hook that returns one object of its own on every call,
  \<^verbatim>\<open>var shared = {foo: 'bar'}; function() { return shared; }\<close>, with \<^verbatim>\<open>shared\<close> at
  address 0 of \<open>shared_heap\<close>.
\<close>

definition shared_object_hook :: shook where
  "shared_object_hook h this d err = (SReturned (Ref 0), h)"

definition shared_heap :: heap where
  "shared_heap = [[(''foo'', JStr ''bar'')]]"

definition shared_hooks_h :: shared_hooks where
  "shared_hooks_h = \<lparr>sh_updateLogFields = Some shared_object_hook,
                     sh_updateRequestLogFields = Some test_updateRequestLogFields_h,
                     sh_updateResponseLogFields = None\<rparr>"

section \<open>Shared lemmas\<close>

lemma updateFields_throw_isolated:
  "log c = Some l \<Longrightarrow> hook_call f (Some c) data err = Thrown e d
     \<Longrightarrow> updateFields (Some c) (Some f) data err tr = Done (d, tr @ [Log Error [e]])"
  by (simp add: updateFields_def hook_call_def)

lemma map_of_set_prop:
  "map_of (set_prop fs k v)
     = (if k = ''__proto__'' \<and> map_of fs k = None then map_of fs else (map_of fs)(k \<mapsto> v))"
  by (induction fs) (auto simp: fun_eq_iff)

lemma onResponseFinished_unfold:
  "onResponseFinished opts c ctx now tr =
     (case updateFields (Some ctx) (updateLogFields opts) (response_fields opts c ctx now) JUndefined tr of
        Threw x \<Rightarrow> Threw x
      | Done (d, tr1) \<Rightarrow>
          (case updateFields (Some ctx) (updateResponseLogFields opts) d (cl_err c) tr1 of
             Threw x \<Rightarrow> Threw x
           | Done (d', tr2) \<Rightarrow>
               (case log ctx of
                  None \<Rightarrow> Threw (TypeError ''cannot read property of null'')
                | Some l \<Rightarrow>
                    Done (ctx\<lparr>log := None\<rparr>,
                          tr2 @ [Log (the_levelFn opts ctx (cl_err c))
                                   [d', JStr (the_formatResponseMessage opts ctx d')]]))))"
  by (simp only: onResponseFinished_def response_fields_def Let_def)

lemma onResponseFinished_no_hooks:
  assumes "updateLogFields opts = None" "updateResponseLogFields opts = None" "log ctx = Some l"
  shows "onResponseFinished opts c ctx now tr =
     Done (ctx\<lparr>log := None\<rparr>,
           tr @ [Log (the_levelFn opts ctx (cl_err c))
                   [response_fields opts c ctx now,
                    JStr (the_formatResponseMessage opts ctx (response_fields opts c ctx now))]])"
  using assms by (simp add: onResponseFinished_unfold updateFields_def)

lemma the_durationField_update_response_hook [simp]:
  "the_durationField (opts\<lparr>updateResponseLogFields := h\<rparr>) = the_durationField opts"
  by (simp add: the_durationField_def)

lemma opts_update_response_hook [simp]:
  "the_levelFn (opts\<lparr>updateResponseLogFields := h\<rparr>) = the_levelFn opts"
  "the_formatResponseMessage (opts\<lparr>updateResponseLogFields := h\<rparr>) = the_formatResponseMessage opts"
  "response_fields (opts\<lparr>updateResponseLogFields := h\<rparr>) = response_fields opts"
  by (simp_all add: the_levelFn_def the_formatResponseMessage_def response_fields_def
        fun_eq_iff split: option.splits)

lemma updateFields_hook_cong:
  assumes "hook_call h1 c d e = hook_call h2 c d e"
  shows "updateFields c (Some h1) d e tr = updateFields c (Some h2) d e tr"
  using assms by (simp add: updateFields_def hook_call_def)

lemma requestLogger_reaches_next:
  assumes "Next_called \<in> set (fst (requestLogger this opts ctx st nxt))"
  shows "\<exists>tr0. requestLogger this opts ctx st nxt =
           (tr0 @ [Next_called,
                   On_finished \<lparr>cl_err = (case nxt of None \<Rightarrow> JUndefined | Some e \<Rightarrow> e), cl_startTime = st\<rparr>],
            if truthy (case nxt of None \<Rightarrow> JUndefined | Some e \<Rightarrow> e)
            then Rejected (case nxt of None \<Rightarrow> JUndefined | Some e \<Rightarrow> e) else Resolved)"
proof (cases "updateFields this (updateLogFields opts) (JObj [(''req'', req ctx)]) JUndefined []")
  case (Threw x)
  with assms show ?thesis by (simp add: requestLogger_def)
next
  case (Done p)
  obtain d1 tr1 where p: "p = (d1, tr1)" by (cases p)
  show ?thesis
  proof (cases "updateFields this (updateRequestLogFields opts) d1 JUndefined tr1")
    case (Threw x)
    with assms Done p have "Next_called \<in> set tr1" by (simp add: requestLogger_def)
    moreover from Done p have "tr1 = [] \<or> (\<exists>e. tr1 = [Log Error [e]])"
      by (auto simp: updateFields_def split: option.splits hook_result.splits)
    ultimately show ?thesis by auto
  next
    case d2: (Done q)
    obtain d2' tr2 where q: "q = (d2', tr2)" by (cases q)
    show ?thesis
    proof (cases "log ctx")
      case None
      from Done p have t1: "tr1 = [] \<or> (\<exists>e. tr1 = [Log Error [e]])"
        by (auto simp: updateFields_def split: option.splits hook_result.splits)
      from d2 q have "tr2 = tr1 \<or> (\<exists>e. tr2 = tr1 @ [Log Error [e]])"
        by (auto simp: updateFields_def split: option.splits hook_result.splits)
      with t1 have "Next_called \<notin> set tr2" by auto
      moreover from assms Done p d2 q None have "Next_called \<in> set tr2"
        by (simp add: requestLogger_def)
      ultimately show ?thesis by simp
    next
      case (Some l)
      with Done p d2 q show ?thesis
        by (simp add: requestLogger_def Let_def)
    qed
  qed
qed

lemma opts_update_levelFn [simp]:
  "the_formatResponseMessage (opts\<lparr>levelFn := f\<rparr>) = the_formatResponseMessage opts"
  "response_fields (opts\<lparr>levelFn := f\<rparr>) = response_fields opts"
  "the_levelFn (opts\<lparr>levelFn := Some g\<rparr>) = g"
  by (simp_all add: the_levelFn_def the_formatResponseMessage_def response_fields_def
        the_durationField_def fun_eq_iff split: option.splits)

lemma response_fields_falsy:
  "\<not> truthy v \<Longrightarrow> response_fields opts \<lparr>cl_err = v, cl_startTime = st\<rparr> ctx now
     = response_fields opts \<lparr>cl_err = JUndefined, cl_startTime = st\<rparr> ctx now"
  by (simp add: response_fields_def)

lemma updateFields_falsy_err:
  "\<not> truthy v \<Longrightarrow> updateFields c func d v tr = updateFields c func d JUndefined tr"
  by (simp add: updateFields_def split: option.splits)

lemma updateFields_Threw:
  "updateFields c func d e tr = Threw x \<Longrightarrow> \<exists>m. x = JError m"
  by (auto simp: updateFields_def TypeError_def split: option.splits hook_result.splits)

lemma requestLogger_settled:
  "snd (requestLogger this opts ctx st nxt) = Resolved
   \<or> (\<exists>m. snd (requestLogger this opts ctx st nxt) = Rejected (JError m))
   \<or> (\<exists>e. nxt = Some e \<and> truthy e \<and> snd (requestLogger this opts ctx st nxt) = Rejected e)"
proof (cases "updateFields this (updateLogFields opts) (JObj [(''req'', req ctx)]) JUndefined []")
  case (Threw x)
  then show ?thesis using updateFields_Threw [OF Threw] by (auto simp: requestLogger_def)
next
  case (Done p)
  obtain d1 tr1 where p: "p = (d1, tr1)" by (cases p)
  show ?thesis
  proof (cases "updateFields this (updateRequestLogFields opts) d1 JUndefined tr1")
    case (Threw x)
    then show ?thesis using updateFields_Threw [OF Threw] Done p by (auto simp: requestLogger_def)
  next
    case d2: (Done q)
    obtain d2' tr2 where q: "q = (d2', tr2)" by (cases q)
    show ?thesis
    proof (cases "log ctx")
      case None
      with Done p d2 q show ?thesis by (simp add: requestLogger_def TypeError_def)
    next
      case (Some l)
      with Done p d2 q show ?thesis
        by (cases nxt) (simp_all add: requestLogger_def Let_def)
    qed
  qed
qed

lemma updateFields_trace:
  assumes "updateFields c func d e tr = Done (d', tr')"
  shows "\<exists>es. tr' = tr @ es \<and> list_all is_hook_error es"
  using assms by (auto simp: updateFields_def split: option.splits hook_result.splits)

lemma updateFields_total:
  assumes "log c = Some l"
  shows "\<exists>d' es. updateFields (Some c) func d e tr = Done (d', tr @ es) \<and> list_all is_hook_error es"
  using assms by (auto simp: updateFields_def split: option.splits hook_result.splits)

lemma not_hook_error_Next: "list_all is_hook_error es \<Longrightarrow> Next_called \<notin> set es"
  by (induction es) auto

lemma requestLogger_structure:
  assumes "Next_called \<in> set (fst (requestLogger this opts ctx st nxt))"
  shows "\<exists>pre d. list_all is_hook_error pre
           \<and> fst (requestLogger this opts ctx st nxt)
               = pre @ [Log Info [d, JStr (the_formatRequestMessage opts ctx d)], Next_called,
                        On_finished \<lparr>cl_err = (case nxt of None \<Rightarrow> JUndefined | Some e \<Rightarrow> e),
                                     cl_startTime = st\<rparr>]"
proof (cases "updateFields this (updateLogFields opts) (JObj [(''req'', req ctx)]) JUndefined []")
  case (Threw x)
  with assms show ?thesis by (simp add: requestLogger_def)
next
  case (Done p)
  obtain d1 tr1 where p: "p = (d1, tr1)" by (cases p)
  from updateFields_trace [OF Done [unfolded p]]
  have t1: "list_all is_hook_error tr1" by simp
  show ?thesis
  proof (cases "updateFields this (updateRequestLogFields opts) d1 JUndefined tr1")
    case (Threw x)
    with assms Done p have "Next_called \<in> set tr1" by (simp add: requestLogger_def)
    with not_hook_error_Next [OF t1] show ?thesis by simp
  next
    case d2: (Done q)
    obtain d2' tr2 where q: "q = (d2', tr2)" by (cases q)
    from updateFields_trace [OF d2 [unfolded q]] t1
    have t2: "list_all is_hook_error tr2" by auto
    show ?thesis
    proof (cases "log ctx")
      case None
      with assms Done p d2 q have "Next_called \<in> set tr2" by (simp add: requestLogger_def)
      with not_hook_error_Next [OF t2] show ?thesis by simp
    next
      case (Some l)
      with Done p d2 q t2 show ?thesis
        by (simp add: requestLogger_def Let_def)
    qed
  qed
qed

lemma fire_hook_errors:
  "list_all is_hook_error es \<Longrightarrow> fire opts (es @ rest) ctx now tr = fire opts rest ctx now tr"
proof (induction es)
  case Nil
  then show ?case by simp
next
  case (Cons e es)
  then show ?case by (cases e) simp_all
qed

lemma onResponseFinished_structure:
  assumes "log ctx = Some l"
  shows "\<exists>post d. list_all is_hook_error post
           \<and> onResponseFinished opts c ctx now tr
               = Done (ctx\<lparr>log := None\<rparr>,
                       tr @ post @ [Log (the_levelFn opts ctx (cl_err c))
                                      [d, JStr (the_formatResponseMessage opts ctx d)]])"
proof -
  from updateFields_total [OF assms]
  obtain d1 es1 where u1: "updateFields (Some ctx) (updateLogFields opts)
      (response_fields opts c ctx now) JUndefined tr = Done (d1, tr @ es1)"
    and h1: "list_all is_hook_error es1" by blast
  from updateFields_total [OF assms]
  obtain d2 es2 where u2: "updateFields (Some ctx) (updateResponseLogFields opts)
      d1 (cl_err c) (tr @ es1) = Done (d2, (tr @ es1) @ es2)"
    and h2: "list_all is_hook_error es2" by blast
  have "onResponseFinished opts c ctx now tr
      = Done (ctx\<lparr>log := None\<rparr>,
              tr @ (es1 @ es2) @ [Log (the_levelFn opts ctx (cl_err c))
                                     [d2, JStr (the_formatResponseMessage opts ctx d2)]])"
    using u1 u2 assms by (simp add: onResponseFinished_unfold)
  moreover have "list_all is_hook_error (es1 @ es2)" using h1 h2 by simp
  ultimately show ?thesis by blast
qed

lemma request_lifecycle_order:
  assumes "Next_called \<in> set (fst (requestLogger this opts ctx st nxt))"
    and "log ctx_fin = Some l"
  shows "\<exists>pre R m1 c post lv C m2.
           request_lifecycle this opts ctx st nxt ctx_fin now
             = pre @ [Log Info [R, JStr m1], Next_called, On_finished c, Finish_signal]
                 @ post @ [Log lv [C, JStr m2]]
           \<and> list_all is_hook_error pre \<and> list_all is_hook_error post"
proof -
  from requestLogger_structure [OF assms(1)]
  obtain pre d where pre: "list_all is_hook_error pre"
    and tr: "fst (requestLogger this opts ctx st nxt)
               = pre @ [Log Info [d, JStr (the_formatRequestMessage opts ctx d)], Next_called,
                        On_finished \<lparr>cl_err = (case nxt of None \<Rightarrow> JUndefined | Some e \<Rightarrow> e),
                                     cl_startTime = st\<rparr>]"
    by blast
  let ?c = "\<lparr>cl_err = (case nxt of None \<Rightarrow> JUndefined | Some e \<Rightarrow> e), cl_startTime = st\<rparr>"
  let ?tr = "pre @ [Log Info [d, JStr (the_formatRequestMessage opts ctx d)], Next_called,
                    On_finished ?c]"
  from onResponseFinished_structure [OF assms(2), of opts ?c now "?tr @ [Finish_signal]"]
  obtain post C where post: "list_all is_hook_error post"
    and f: "onResponseFinished opts ?c ctx_fin now (?tr @ [Finish_signal])
              = Done (ctx_fin\<lparr>log := None\<rparr>,
                      (?tr @ [Finish_signal]) @ post
                        @ [Log (the_levelFn opts ctx_fin (cl_err ?c))
                             [C, JStr (the_formatResponseMessage opts ctx_fin C)]])"
    by blast
  have "request_lifecycle this opts ctx st nxt ctx_fin now
          = fire opts ?tr ctx_fin now (?tr @ [Finish_signal])"
    by (simp add: request_lifecycle_def tr Let_def)
  also have "\<dots> = fire opts [Log Info [d, JStr (the_formatRequestMessage opts ctx d)], Next_called,
                    On_finished ?c] ctx_fin now (?tr @ [Finish_signal])"
    using fire_hook_errors [OF pre] by simp
  also have "\<dots> = (?tr @ [Finish_signal]) @ post
                        @ [Log (the_levelFn opts ctx_fin (cl_err ?c))
                             [C, JStr (the_formatResponseMessage opts ctx_fin C)]]"
    using f by simp
  finally have "request_lifecycle this opts ctx st nxt ctx_fin now
      = pre @ [Log Info [d, JStr (the_formatRequestMessage opts ctx d)], Next_called,
               On_finished ?c, Finish_signal]
          @ post @ [Log (the_levelFn opts ctx_fin (cl_err ?c))
                      [C, JStr (the_formatResponseMessage opts ctx_fin C)]]"
    by simp
  with pre post show ?thesis by blast
qed

lemma opts_update_request_hook [simp]:
  "the_levelFn (opts\<lparr>updateRequestLogFields := h\<rparr>) = the_levelFn opts"
  "the_formatResponseMessage (opts\<lparr>updateRequestLogFields := h\<rparr>) = the_formatResponseMessage opts"
  "response_fields (opts\<lparr>updateRequestLogFields := h\<rparr>) = response_fields opts"
  by (simp_all add: the_levelFn_def the_formatResponseMessage_def response_fields_def
        the_durationField_def fun_eq_iff split: option.splits)

lemma map_of_del_prop: "map_of (del_prop fs k) = (map_of fs)(k := None)"
  by (induction fs) (auto simp: del_prop_def fun_eq_iff)

lemma has_field_del_prop:
  "has_field (JObj (del_prop fs k)) k' = (k' \<noteq> k \<and> has_field (JObj fs) k')"
  by (simp add: map_of_del_prop)

lemma message_time:
  "message [JStr ''time() called for previously used label %s'', JStr label]
     = ''time() called for previously used label '' @ label"
  by simp

lemma message_timeEnd:
  "message [JStr ''timeEnd() called without time() for label %s'', JStr label]
     = ''timeEnd() called without time() for label '' @ label"
  by simp

lemma wf_times_empty: "wf_times empty_times"
  by (simp add: wf_times_def empty_times_def)

lemma wf_times_store: "wf_times st \<Longrightarrow> wf_times (store st label v)"
  by (auto simp: wf_times_def store_def)

lemma lookup_store_same:
  assumes "wf_times st" and "own st label \<noteq> None"
  shows "lookup (store st label v) label = Some v"
  using assms by (auto simp: wf_times_def store_def lookup_def)

lemma lookup_own: "own st label = Some v \<Longrightarrow> lookup st label = Some v"
  by (simp add: lookup_def)

lemma lookup_store_other:
  assumes "wf_times st" and "own st label \<noteq> None"
  shows "other \<noteq> label \<Longrightarrow> lookup (store st label v) other = lookup st other"
  using assms by (auto simp: wf_times_def store_def lookup_def)

lemma time_total:
  assumes "log ctx = Some l"
  shows "\<exists>c tr'. time ctx label now tr = Done (c, tr')"
  using assms by (simp add: time_def Let_def)

lemma timeEnd_without_time_warns:
  assumes "log ctx = Some l"
    and "own (timeContextStartTimes ctx) label = None \<or> own (timeContextStartTimes ctx) label = Some Cleared"
    and "has_proto (timeContextStartTimes ctx) \<longrightarrow> label \<notin> set object_prototype_names"
  shows "timeEnd opts ctx label now tr
      = Done (ctx, tr @ [Log Warn [JStr ''timeEnd() called without time() for label %s'', JStr label]])"
  using assms by (auto simp: timeEnd_def Let_def lookup_def)

lemma time_creates_entry:
  assumes "log ctx = Some l"
    and "label \<noteq> ''__proto__'' \<or> \<not> has_proto (timeContextStartTimes ctx)"
  shows "\<exists>ctx' tr'. time ctx label now tr = Done (ctx', tr')
           \<and> own (timeContextStartTimes ctx') label = Some (Stamp now)
           \<and> log ctx' = log ctx"
  using assms by (auto simp: time_def Let_def store_def)

lemma time_preserves_wf:
  assumes "wf_times (timeContextStartTimes ctx)" and "time ctx label now tr = Done (ctx', tr')"
  shows "wf_times (timeContextStartTimes ctx')"
  using assms
  by (auto simp: time_def Let_def wf_times_store split: if_splits option.splits)

lemma timeEnd_preserves_wf:
  assumes "wf_times (timeContextStartTimes ctx)" and "timeEnd opts ctx label now tr = Done (ctx', tr')"
  shows "wf_times (timeContextStartTimes ctx')"
  using assms
  by (auto simp: timeEnd_def Let_def wf_times_store
           split: if_splits option.splits outcome.splits prod.splits)

lemma response_phase_hook_error_isolated:
  "request_lifecycle None (default_opts\<lparr>updateResponseLogFields := Some throwing_hook\<rparr>)
     ctx0 1000 None ctx0 1005
   = [Log Info [JObj [(''req'', JObj [(''url'', JStr ''/'')])], JStr ''  <-- GET /''],
      Next_called, On_finished \<lparr>cl_err = JUndefined, cl_startTime = 1000\<rparr>, Finish_signal,
      Log Error [JError ''clumsy''],
      Log Info [JObj [(''req'', JObj [(''url'', JStr ''/'')]),
                      (''res'', JObj [(''statusCode'', JNum 200)]), (''duration'', JNum 5)],
                JStr ''  --> GET / 200 5ms'']]"
  by (simp add: request_lifecycle_def requestLogger_def onResponseFinished_def Let_def
        updateFields_def default_opts_def throwing_hook_def ctx0_def
        the_formatRequestMessage_def the_formatResponseMessage_def the_levelFn_def
        the_durationField_def show_int_def show_nat.simps)

lemma updateFields_preserves:
  assumes "hook_preserves h k" and "log c = Some l"
  shows "\<exists>d' es. updateFields (Some c) h d e tr = Done (d', tr @ es)
            \<and> list_all is_hook_error es \<and> own_prop d' k = own_prop d k"
proof (cases h)
  case None
  then show ?thesis by (simp add: updateFields_def)
next
  case (Some f)
  with assms(1) have p: "case hook_call f (Some c) d e of
                      Returned v d' \<Rightarrow> own_prop (if truthy v then v else d') k = own_prop d k
                    | Thrown x d' \<Rightarrow> own_prop d' k = own_prop d k"
    unfolding hook_preserves_def hook_call_def by simp
  show ?thesis
  proof (cases "hook_call f (Some c) d e")
    case (Returned v d')
    with p Some show ?thesis by (simp add: updateFields_def hook_call_def)
  next
    case (Thrown x d')
    with p Some assms(2) show ?thesis by (simp add: updateFields_def hook_call_def)
  qed
qed

lemma onResponseFinished_preserves:
  assumes "log ctx = Some l"
    and "hook_preserves (updateLogFields opts) k"
    and "hook_preserves (updateResponseLogFields opts) k"
  shows "\<exists>errs C. onResponseFinished opts c ctx now tr
             = Done (ctx\<lparr>log := None\<rparr>,
                     tr @ errs @ [Log (the_levelFn opts ctx (cl_err c))
                                    [C, JStr (the_formatResponseMessage opts ctx C)]])
           \<and> list_all is_hook_error errs
           \<and> own_prop C k = own_prop (response_fields opts c ctx now) k"
proof -
  from updateFields_preserves [OF assms(2) assms(1)]
  obtain d1 es1 where u1: "updateFields (Some ctx) (updateLogFields opts)
      (response_fields opts c ctx now) JUndefined tr = Done (d1, tr @ es1)"
    and h1: "list_all is_hook_error es1"
    and p1: "own_prop d1 k = own_prop (response_fields opts c ctx now) k" by blast
  from updateFields_preserves [OF assms(3) assms(1)]
  obtain d2 es2 where u2: "updateFields (Some ctx) (updateResponseLogFields opts)
      d1 (cl_err c) (tr @ es1) = Done (d2, (tr @ es1) @ es2)"
    and h2: "list_all is_hook_error es2"
    and p2: "own_prop d2 k = own_prop d1 k" by blast
  have "onResponseFinished opts c ctx now tr
      = Done (ctx\<lparr>log := None\<rparr>,
              tr @ (es1 @ es2) @ [Log (the_levelFn opts ctx (cl_err c))
                                     [d2, JStr (the_formatResponseMessage opts ctx d2)]])"
    using u1 u2 assms(1) by (simp add: onResponseFinished_unfold)
  moreover have "list_all is_hook_error (es1 @ es2)" using h1 h2 by simp
  moreover have "own_prop d2 k = own_prop (response_fields opts c ctx now) k" using p1 p2 by simp
  ultimately show ?thesis by blast
qed

lemma onResponseFinished_response_hook:
  assumes "log ctx = Some l" and "updateResponseLogFields opts = Some h" and "cl_err c = e"
  shows "\<exists>d1 errs.
      updateFields (Some ctx) (updateLogFields opts) (response_fields opts c ctx now) JUndefined tr
        = Done (d1, tr @ errs)
      \<and> list_all is_hook_error errs
      \<and> onResponseFinished opts c ctx now tr
        = (case hook_call h (Some ctx) d1 e of
             Returned v d' \<Rightarrow>
               Done (ctx\<lparr>log := None\<rparr>,
                     tr @ errs @ [Log (the_levelFn opts ctx e)
                        [if truthy v then v else d',
                         JStr (the_formatResponseMessage opts ctx (if truthy v then v else d'))]])
           | Thrown x d' \<Rightarrow>
               Done (ctx\<lparr>log := None\<rparr>,
                     tr @ errs @ [Log Error [x],
                                  Log (the_levelFn opts ctx e)
                                    [d', JStr (the_formatResponseMessage opts ctx d')]]))"
proof -
  from updateFields_total [OF assms(1)]
  obtain d1 es1 where u1: "updateFields (Some ctx) (updateLogFields opts)
      (response_fields opts c ctx now) JUndefined tr = Done (d1, tr @ es1)"
    and h1: "list_all is_hook_error es1" by blast
  have "onResponseFinished opts c ctx now tr
        = (case hook_call h (Some ctx) d1 e of
             Returned v d' \<Rightarrow>
               Done (ctx\<lparr>log := None\<rparr>,
                     tr @ es1 @ [Log (the_levelFn opts ctx e)
                        [if truthy v then v else d',
                         JStr (the_formatResponseMessage opts ctx (if truthy v then v else d'))]])
           | Thrown x d' \<Rightarrow>
               Done (ctx\<lparr>log := None\<rparr>,
                     tr @ es1 @ [Log Error [x],
                                  Log (the_levelFn opts ctx e)
                                    [d', JStr (the_formatResponseMessage opts ctx d')]]))"
    using u1 assms
    by (cases "hook_call h (Some ctx) d1 (cl_err c)")
       (simp_all add: onResponseFinished_unfold updateFields_def hook_call_def)
  with u1 h1 show ?thesis by blast
qed

lemma response_fields_err:
  "truthy e \<Longrightarrow> the_durationField opts \<noteq> ''err''
     \<Longrightarrow> own_prop (response_fields opts \<lparr>cl_err = e, cl_startTime = st\<rparr> ctx now) ''err'' = Some e"
  by (simp add: response_fields_def map_of_set_prop)

lemma response_fields_no_err:
  "\<not> truthy v \<Longrightarrow> the_durationField opts \<noteq> ''err''
     \<Longrightarrow> own_prop (response_fields opts \<lparr>cl_err = v, cl_startTime = st\<rparr> ctx now) ''err'' = None"
  by (simp add: response_fields_def map_of_set_prop)

lemma response_fields_duration:
  "the_durationField opts \<noteq> ''__proto__''
     \<Longrightarrow> own_prop (response_fields opts c ctx now) (the_durationField opts)
           = Some (JNum (now - cl_startTime c))"
  by (simp add: response_fields_def map_of_set_prop)

lemma opts_update_levelFn_request [simp]:
  "the_formatRequestMessage (opts\<lparr>levelFn := f\<rparr>) = the_formatRequestMessage opts"
  "the_durationField (opts\<lparr>levelFn := f\<rparr>) = the_durationField opts"
  by (simp_all add: the_formatRequestMessage_def the_durationField_def)

lemma requestLogger_ignores_levelFn:
  "requestLogger this (opts\<lparr>levelFn := f\<rparr>) ctx st nxt = requestLogger this opts ctx st nxt"
  by (simp add: requestLogger_def Let_def split: outcome.splits prod.splits option.splits)

lemma map_with_err_hook_errors:
  "list_all is_hook_error es \<Longrightarrow> map (with_err v) es = es"
proof (induction es)
  case Nil
  then show ?case by simp
next
  case (Cons e es)
  then show ?case by (cases e) simp_all
qed

lemma requestLogger_falsy_trace:
  assumes "\<not> truthy v"
  shows "requestLogger this opts ctx st (Some v)
     = (map (with_err v) (fst (requestLogger this opts ctx st None)),
        snd (requestLogger this opts ctx st None))"
proof (cases "updateFields this (updateLogFields opts) (JObj [(''req'', req ctx)]) JUndefined []")
  case (Threw x)
  then show ?thesis by (simp add: requestLogger_def)
next
  case (Done p)
  obtain d1 tr1 where p: "p = (d1, tr1)" by (cases p)
  from updateFields_trace [OF Done [unfolded p]]
  have t1: "list_all is_hook_error tr1" by simp
  show ?thesis
  proof (cases "updateFields this (updateRequestLogFields opts) d1 JUndefined tr1")
    case (Threw x)
    with Done p t1 show ?thesis by (simp add: requestLogger_def map_with_err_hook_errors)
  next
    case d2: (Done q)
    obtain d2' tr2 where q: "q = (d2', tr2)" by (cases q)
    from updateFields_trace [OF d2 [unfolded q]] t1
    have t2: "list_all is_hook_error tr2" by auto
    show ?thesis
    proof (cases "log ctx")
      case None
      with Done p d2 q t2 show ?thesis by (simp add: requestLogger_def map_with_err_hook_errors)
    next
      case (Some l)
      with Done p d2 q t2 assms show ?thesis
        by (simp add: requestLogger_def Let_def map_with_err_hook_errors)
    qed
  qed
qed

lemma onResponseFinished_falsy:
  assumes "\<not> truthy v"
  shows "onResponseFinished opts \<lparr>cl_err = v, cl_startTime = st\<rparr> ctx now tr
        = onResponseFinished (opts\<lparr>levelFn := Some (\<lambda>c x. the_levelFn opts c v)\<rparr>)
            \<lparr>cl_err = JUndefined, cl_startTime = st\<rparr> ctx now tr"
  by (simp add: onResponseFinished_unfold response_fields_falsy [OF assms]
        updateFields_falsy_err [OF assms] split: outcome.splits prod.splits option.splits)

lemma updateFields_prefix:
  "updateFields c f d e X
     = (case updateFields c f d e [] of Threw x \<Rightarrow> Threw x | Done (d', es) \<Rightarrow> Done (d', X @ es))"
  by (simp add: updateFields_def split: option.splits hook_result.splits)

lemma onResponseFinished_events:
  "(\<exists>x. \<forall>X. onResponseFinished opts c ctx now X = Threw x)
   \<or> (\<exists>c' es. list_all (\<lambda>e. with_err v e = e) es
         \<and> (\<forall>X. onResponseFinished opts c ctx now X = Done (c', X @ es)))"
proof (cases "log ctx")
  case None
  have "\<forall>X. onResponseFinished opts c ctx now X
           = Threw (case updateFields (Some ctx) (updateLogFields opts)
                           (response_fields opts c ctx now) JUndefined [] of
                      Threw x \<Rightarrow> x
                    | Done (d1, es1) \<Rightarrow>
                        (case updateFields (Some ctx) (updateResponseLogFields opts) d1 (cl_err c) [] of
                           Threw x \<Rightarrow> x
                         | Done (d2, es2) \<Rightarrow> TypeError ''cannot read property of null''))"
  proof
    fix X
    show "onResponseFinished opts c ctx now X
           = Threw (case updateFields (Some ctx) (updateLogFields opts)
                           (response_fields opts c ctx now) JUndefined [] of
                      Threw x \<Rightarrow> x
                    | Done (d1, es1) \<Rightarrow>
                        (case updateFields (Some ctx) (updateResponseLogFields opts) d1 (cl_err c) [] of
                           Threw x \<Rightarrow> x
                         | Done (d2, es2) \<Rightarrow> TypeError ''cannot read property of null''))"
      using None
      by (simp add: onResponseFinished_unfold updateFields_def
            split: option.splits hook_result.splits)
  qed
  then show ?thesis by blast
next
  case (Some l)
  from updateFields_total [OF Some, of "updateLogFields opts" "response_fields opts c ctx now"
      JUndefined "[]"]
  obtain d1 es1 where u1: "updateFields (Some ctx) (updateLogFields opts)
      (response_fields opts c ctx now) JUndefined [] = Done (d1, es1)"
    and h1: "list_all is_hook_error es1" by auto
  from updateFields_total [OF Some, of "updateResponseLogFields opts" d1 "cl_err c" "[]"]
  obtain d2 es2 where u2: "updateFields (Some ctx) (updateResponseLogFields opts)
      d1 (cl_err c) [] = Done (d2, es2)"
    and h2: "list_all is_hook_error es2" by auto
  let ?es = "es1 @ es2 @ [Log (the_levelFn opts ctx (cl_err c))
                       [d2, JStr (the_formatResponseMessage opts ctx d2)]]"
  have k: "\<And>es. list_all is_hook_error es \<Longrightarrow> list_all (\<lambda>e. with_err v e = e) es"
  proof -
    fix es :: "event list"
    assume "list_all is_hook_error es"
    then show "list_all (\<lambda>e. with_err v e = e) es"
      by (induction es) (auto elim: is_hook_error.elims)
  qed
  have a: "list_all (\<lambda>e. with_err v e = e) ?es" using k [OF h1] k [OF h2] by simp
  have b: "\<forall>X. onResponseFinished opts c ctx now X = Done (ctx\<lparr>log := None\<rparr>, X @ ?es)"
  proof
    fix X
    have x1: "updateFields (Some ctx) (updateLogFields opts)
        (response_fields opts c ctx now) JUndefined X = Done (d1, X @ es1)"
      using u1 by (subst updateFields_prefix) simp
    have x2: "updateFields (Some ctx) (updateResponseLogFields opts)
        d1 (cl_err c) (X @ es1) = Done (d2, (X @ es1) @ es2)"
      using u2 by (subst updateFields_prefix) simp
    show "onResponseFinished opts c ctx now X = Done (ctx\<lparr>log := None\<rparr>, X @ ?es)"
      using x1 x2 Some by (simp add: onResponseFinished_unfold)
  qed
  from a b show ?thesis by blast
qed

lemma requestLogger_trace_shape:
  "list_all is_hook_error (fst (requestLogger this opts ctx st nxt))
   \<or> (\<exists>pre d. list_all is_hook_error pre
         \<and> fst (requestLogger this opts ctx st nxt)
             = pre @ [Log Info [d, JStr (the_formatRequestMessage opts ctx d)], Next_called,
                      On_finished \<lparr>cl_err = (case nxt of None \<Rightarrow> JUndefined | Some e \<Rightarrow> e),
                                   cl_startTime = st\<rparr>])"
proof (cases "Next_called \<in> set (fst (requestLogger this opts ctx st nxt))")
  case True
  from requestLogger_structure [OF True] show ?thesis by blast
next
  case False
  have "list_all is_hook_error (fst (requestLogger this opts ctx st nxt))"
  proof (cases "updateFields this (updateLogFields opts) (JObj [(''req'', req ctx)]) JUndefined []")
    case (Threw x)
    then show ?thesis by (simp add: requestLogger_def)
  next
    case (Done p)
    obtain d1 tr1 where p: "p = (d1, tr1)" by (cases p)
    from updateFields_trace [OF Done [unfolded p]]
    have t1: "list_all is_hook_error tr1" by simp
    show ?thesis
    proof (cases "updateFields this (updateRequestLogFields opts) d1 JUndefined tr1")
      case (Threw x)
      with Done p t1 show ?thesis by (simp add: requestLogger_def)
    next
      case d2: (Done q)
      obtain d2' tr2 where q: "q = (d2', tr2)" by (cases q)
      from updateFields_trace [OF d2 [unfolded q]] t1
      have t2: "list_all is_hook_error tr2" by auto
      show ?thesis
      proof (cases "log ctx")
        case None
        with Done p d2 q t2 show ?thesis by (simp add: requestLogger_def)
      next
        case (Some l)
        with Done p d2 q False show ?thesis by (simp add: requestLogger_def Let_def)
      qed
    qed
  qed
  then show ?thesis by blast
qed

lemma request_lifecycle_falsy:
  assumes "\<not> truthy v"
  shows "request_lifecycle this opts ctx st (Some v) ctx_fin now
     = map (with_err v)
         (request_lifecycle this (opts\<lparr>levelFn := Some (\<lambda>c x. the_levelFn opts c v)\<rparr>)
            ctx st None ctx_fin now)"
proof -
  let ?o = "opts\<lparr>levelFn := Some (\<lambda>c x. the_levelFn opts c v)\<rparr>"
  let ?A = "fst (requestLogger this opts ctx st None)"
  let ?B = "map (with_err v) ?A"
  have l: "request_lifecycle this opts ctx st (Some v) ctx_fin now
             = fire opts ?B ctx_fin now (?B @ [Finish_signal])"
    by (simp add: request_lifecycle_def requestLogger_falsy_trace [OF assms] Let_def)
  have r: "request_lifecycle this ?o ctx st None ctx_fin now
             = fire ?o ?A ctx_fin now (?A @ [Finish_signal])"
    by (simp add: request_lifecycle_def requestLogger_ignores_levelFn Let_def)
  from requestLogger_trace_shape [of this opts ctx st None]
  show ?thesis
  proof
    assume h: "list_all is_hook_error ?A"
    then have e: "?B = ?A" by (rule map_with_err_hook_errors)
    from fire_hook_errors [OF h, of opts "[]" ctx_fin now "?A @ [Finish_signal]"]
    have f1: "fire opts ?A ctx_fin now (?A @ [Finish_signal]) = ?A @ [Finish_signal]" by simp
    from fire_hook_errors [OF h, of ?o "[]" ctx_fin now "?A @ [Finish_signal]"]
    have f2: "fire ?o ?A ctx_fin now (?A @ [Finish_signal]) = ?A @ [Finish_signal]" by simp
    from l r e f1 f2 show ?thesis by simp
  next
    assume "\<exists>pre d. list_all is_hook_error pre
         \<and> ?A = pre @ [Log Info [d, JStr (the_formatRequestMessage opts ctx d)], Next_called,
                      On_finished \<lparr>cl_err = (case None of None \<Rightarrow> JUndefined | Some e \<Rightarrow> e),
                                   cl_startTime = st\<rparr>]"
    then obtain pre d where h: "list_all is_hook_error pre"
      and t0: "?A = pre @ [Log Info [d, JStr (the_formatRequestMessage opts ctx d)], Next_called,
                      On_finished \<lparr>cl_err = JUndefined, cl_startTime = st\<rparr>]"
      by auto
    let ?m = "Log Info [d, JStr (the_formatRequestMessage opts ctx d)]"
    have t: "?B = pre @ [?m, Next_called, On_finished \<lparr>cl_err = v, cl_startTime = st\<rparr>]"
      using t0 h by (simp add: map_with_err_hook_errors)
    have f1: "fire opts ?B ctx_fin now (?B @ [Finish_signal])
        = (case onResponseFinished opts \<lparr>cl_err = v, cl_startTime = st\<rparr> ctx_fin now
                  (?B @ [Finish_signal]) of
             Threw x \<Rightarrow> ?B @ [Finish_signal]
           | Done (c', tr') \<Rightarrow> tr')"
      unfolding t using fire_hook_errors [OF h]
      by (simp split: outcome.splits prod.splits)
    have f2: "fire ?o ?A ctx_fin now (?A @ [Finish_signal])
        = (case onResponseFinished ?o \<lparr>cl_err = JUndefined, cl_startTime = st\<rparr> ctx_fin now
                  (?A @ [Finish_signal]) of
             Threw x \<Rightarrow> ?A @ [Finish_signal]
           | Done (c', tr') \<Rightarrow> tr')"
      unfolding t0 using fire_hook_errors [OF h]
      by (simp split: outcome.splits prod.splits)
    note q = onResponseFinished_falsy [OF assms, of opts st ctx_fin now]
    from onResponseFinished_events [of ?o "\<lparr>cl_err = JUndefined, cl_startTime = st\<rparr>" ctx_fin now v]
    show ?thesis
    proof
      assume "\<exists>x. \<forall>X. onResponseFinished ?o \<lparr>cl_err = JUndefined, cl_startTime = st\<rparr>
                          ctx_fin now X = Threw x"
      then obtain x where x: "\<And>X. onResponseFinished ?o \<lparr>cl_err = JUndefined, cl_startTime = st\<rparr>
                          ctx_fin now X = Threw x" by blast
      from l r f1 f2 show ?thesis by (simp add: q x)
    next
      assume "\<exists>c' es. list_all (\<lambda>e. with_err v e = e) es
         \<and> (\<forall>X. onResponseFinished ?o \<lparr>cl_err = JUndefined, cl_startTime = st\<rparr> ctx_fin now X
                  = Done (c', X @ es))"
      then obtain c' es where i: "list_all (\<lambda>e. with_err v e = e) es"
        and x: "\<And>X. onResponseFinished ?o \<lparr>cl_err = JUndefined, cl_startTime = st\<rparr> ctx_fin now X
                  = Done (c', X @ es)" by blast
      from i have m: "map (with_err v) es = es" by (induction es) auto
      from l r f1 f2 show ?thesis by (simp add: q x m)
    qed
  qed
qed

lemma onResponseFinished_levelFn_eta:
  "onResponseFinished (opts\<lparr>levelFn := Some (the_levelFn opts)\<rparr>) c ctx now tr
     = onResponseFinished opts c ctx now tr"
  by (simp add: onResponseFinished_unfold split: outcome.splits prod.splits option.splits)

lemma fire_cong:
  assumes "\<And>c ctx tr. onResponseFinished o1 c ctx now tr = onResponseFinished o2 c ctx now tr"
  shows "fire o1 es ctx now tr = fire o2 es ctx now tr"
proof (induction es arbitrary: ctx tr)
  case Nil
  then show ?case by simp
next
  case (Cons e es)
  then show ?case
    by (cases e) (simp_all add: assms split: outcome.splits prod.splits)
qed

lemma request_lifecycle_levelFn_eta:
  "request_lifecycle this (opts\<lparr>levelFn := Some (the_levelFn opts)\<rparr>) ctx st nxt ctx' now
     = request_lifecycle this opts ctx st nxt ctx' now"
  by (simp add: request_lifecycle_def requestLogger_ignores_levelFn Let_def
        fire_cong [of "opts\<lparr>levelFn := Some (the_levelFn opts)\<rparr>" now opts,
                   OF onResponseFinished_levelFn_eta])


lemma deref_last: "deref (h @ [fs]) (length h) = fs"
  by (simp add: deref_def)











section \<open>The hook runner: results\<close>

text \<open>
  C4. For every invocation of the hook runner: without a hook the data comes back
  unchanged (and nothing is logged); when the hook returns a truthy value, that value is
  the result, whatever the data was; when the hook returns nothing or a falsy value, the
  result is the data object in the state the hook left it in.
\<close>

theorem updateFields_replace_or_retain:
  "updateFields ctx None data err tr = Done (data, tr)
   \<and> (hook_call f ctx data err = Returned v d \<and> truthy v
         \<longrightarrow> updateFields ctx (Some f) data err tr = Done (v, tr))
   \<and> (hook_call g ctx data err = Returned w d' \<and> \<not> truthy w
         \<longrightarrow> updateFields ctx (Some g) data err tr = Done (d', tr))"
  by (simp add: updateFields_def hook_call_def)

theorem updateFields_replace_or_retain_witness:
  "updateFields (Some ctx0) None (JObj [(''label'', JStr ''foo'')]) JUndefined []
     = Done (JObj [(''label'', JStr ''foo'')], [])
   \<and> hook_call replacing_hook (Some ctx0) (JObj [(''label'', JStr ''foo'')]) JUndefined
        = Returned (JObj [(''request_trace'', JStr ''foo'')]) (JObj [(''label'', JStr ''foo'')])
   \<and> truthy (JObj [(''request_trace'', JStr ''foo'')])
   \<and> updateFields (Some ctx0) (Some replacing_hook) (JObj [(''label'', JStr ''foo'')]) JUndefined []
        = Done (JObj [(''request_trace'', JStr ''foo'')], [])
   \<and> hook_call mutating_hook (Some ctx0) (JObj [(''label'', JStr ''foo'')]) JUndefined
        = Returned JUndefined (JObj [(''label'', JStr ''foo''), (''foo'', JStr ''bar'')])
   \<and> \<not> truthy JUndefined
   \<and> updateFields (Some ctx0) (Some mutating_hook) (JObj [(''label'', JStr ''foo'')]) JUndefined []
        = Done (JObj [(''label'', JStr ''foo''), (''foo'', JStr ''bar'')], [])"
  using updateFields_replace_or_retain
    [of "Some ctx0" "JObj [(''label'', JStr ''foo'')]" JUndefined "[]"
        replacing_hook "JObj [(''request_trace'', JStr ''foo'')]" "JObj [(''label'', JStr ''foo'')]"
        mutating_hook JUndefined "JObj [(''label'', JStr ''foo''), (''foo'', JStr ''bar'')]"]
  by (simp add: hook_call_def replacing_hook_def mutating_hook_def)

section \<open>Hook errors\<close>

text \<open>
  C1. The claim is that a throwing hook is logged and isolated in every phase, the request
  phase included. In the request phase the runner is handed \<^verbatim>\<open>this\<close>, not \<^verbatim>\<open>ctx\<close>
  (lines 144 and 145), and under koa-compose \<^verbatim>\<open>this\<close> is \<^verbatim>\<open>undefined\<close>: the
  \<^verbatim>\<open>catch\<close> block's \<^verbatim>\<open>ctx.log.error(e)\<close> throws a \<^verbatim>\<open>TypeError\<close>, which leaves
  \<open>requestLogger\<close> before the request record is written and before the completion
  callback is registered. This theorem evaluates the code there: nothing is logged, the
  promise is rejected with the \<^verbatim>\<open>TypeError\<close>, and the whole request produces no record.
  Where the runner is handed the context, as in the response phase, it does what the
  claim says: lemmas \<open>updateFields_throw_isolated\<close> and
  \<open>response_phase_hook_error_isolated\<close>.
\<close>

theorem request_phase_hook_error_escapes:
  "requestLogger None (default_opts\<lparr>updateRequestLogFields := Some throwing_hook\<rparr>) ctx0 1000 None
     = ([], Rejected (TypeError ''cannot read property log of undefined''))
   \<and> request_lifecycle None (default_opts\<lparr>updateRequestLogFields := Some throwing_hook\<rparr>)
        ctx0 1000 None ctx0 1005 = [Finish_signal]"
  by (simp add: requestLogger_def request_lifecycle_def updateFields_def default_opts_def
        throwing_hook_def)

section \<open>Handler errors\<close>

text \<open>
  C2, as amended. For every request whose handler chain throws a truthy value \<open>e\<close>:
  \<open>requestLogger\<close> registers the completion callback with \<open>e\<close> captured, after the
  handler has run, and rejects with the same \<open>e\<close>; the field map the callback builds
  carries \<open>e\<close> in its \<^verbatim>\<open>err\<close> field (the duration field not being named \<^verbatim>\<open>err\<close>);
  the response hook, when there is one, is called with \<open>e\<close> as its error argument on
  the data the global hook has left, and what it returns or leaves is the completion
  record; and when neither response-phase hook changes the \<^verbatim>\<open>err\<close> field, the
  completion record that is emitted carries \<open>e\<close> in its \<^verbatim>\<open>err\<close> field.
\<close>

theorem handler_error_rethrown:
  assumes "truthy e"
    and "Next_called \<in> set (fst (requestLogger this opts ctx st (Some e)))"
  shows "(\<exists>tr0. requestLogger this opts ctx st (Some e)
            = (tr0 @ [Next_called, On_finished \<lparr>cl_err = e, cl_startTime = st\<rparr>], Rejected e))
    \<and> (the_durationField opts \<noteq> ''err''
         \<longrightarrow> own_prop (response_fields opts \<lparr>cl_err = e, cl_startTime = st\<rparr> ctx' now) ''err''
               = Some e)
    \<and> (log ctx' = Some l \<and> updateResponseLogFields opts = Some h
         \<longrightarrow> (\<exists>d1 errs.
               updateFields (Some ctx') (updateLogFields opts)
                   (response_fields opts \<lparr>cl_err = e, cl_startTime = st\<rparr> ctx' now) JUndefined tr
                 = Done (d1, tr @ errs)
               \<and> list_all is_hook_error errs
               \<and> onResponseFinished opts \<lparr>cl_err = e, cl_startTime = st\<rparr> ctx' now tr
                 = (case h (Some ctx') d1 (Some e) of
                      Returned v d' \<Rightarrow>
                        Done (ctx'\<lparr>log := None\<rparr>,
                              tr @ errs @ [Log (the_levelFn opts ctx' e)
                                 [if truthy v then v else d',
                                  JStr (the_formatResponseMessage opts ctx'
                                          (if truthy v then v else d'))]])
                    | Thrown x d' \<Rightarrow>
                        Done (ctx'\<lparr>log := None\<rparr>,
                              tr @ errs @ [Log Error [x],
                                           Log (the_levelFn opts ctx' e)
                                             [d', JStr (the_formatResponseMessage opts ctx' d')]]))))
    \<and> (log ctx' = Some l \<and> the_durationField opts \<noteq> ''err''
        \<and> hook_preserves (updateLogFields opts) ''err''
        \<and> hook_preserves (updateResponseLogFields opts) ''err''
         \<longrightarrow> (\<exists>errs C m.
               onResponseFinished opts \<lparr>cl_err = e, cl_startTime = st\<rparr> ctx' now tr
                 = Done (ctx'\<lparr>log := None\<rparr>,
                         tr @ errs @ [Log (the_levelFn opts ctx' e) [C, JStr m]])
               \<and> list_all is_hook_error errs
               \<and> own_prop C ''err'' = Some e))"
proof (intro conjI impI)
  from requestLogger_reaches_next [OF assms(2)] assms(1)
  show "\<exists>tr0. requestLogger this opts ctx st (Some e)
            = (tr0 @ [Next_called, On_finished \<lparr>cl_err = e, cl_startTime = st\<rparr>], Rejected e)"
    by auto
next
  assume "the_durationField opts \<noteq> ''err''"
  with assms(1)
  show "own_prop (response_fields opts \<lparr>cl_err = e, cl_startTime = st\<rparr> ctx' now) ''err'' = Some e"
    by (rule response_fields_err)
next
  assume a: "log ctx' = Some l \<and> updateResponseLogFields opts = Some h"
  from a onResponseFinished_response_hook
    [of ctx' l opts h "\<lparr>cl_err = e, cl_startTime = st\<rparr>" e now tr] assms(1)
  show "\<exists>d1 errs.
               updateFields (Some ctx') (updateLogFields opts)
                   (response_fields opts \<lparr>cl_err = e, cl_startTime = st\<rparr> ctx' now) JUndefined tr
                 = Done (d1, tr @ errs)
               \<and> list_all is_hook_error errs
               \<and> onResponseFinished opts \<lparr>cl_err = e, cl_startTime = st\<rparr> ctx' now tr
                 = (case h (Some ctx') d1 (Some e) of
                      Returned v d' \<Rightarrow>
                        Done (ctx'\<lparr>log := None\<rparr>,
                              tr @ errs @ [Log (the_levelFn opts ctx' e)
                                 [if truthy v then v else d',
                                  JStr (the_formatResponseMessage opts ctx'
                                          (if truthy v then v else d'))]])
                    | Thrown x d' \<Rightarrow>
                        Done (ctx'\<lparr>log := None\<rparr>,
                              tr @ errs @ [Log Error [x],
                                           Log (the_levelFn opts ctx' e)
                                             [d', JStr (the_formatResponseMessage opts ctx' d')]]))"
    by (simp add: hook_call_def)
next
  assume a: "log ctx' = Some l \<and> the_durationField opts \<noteq> ''err''
        \<and> hook_preserves (updateLogFields opts) ''err''
        \<and> hook_preserves (updateResponseLogFields opts) ''err''"
  from a onResponseFinished_preserves
    [of ctx' l opts "''err''" "\<lparr>cl_err = e, cl_startTime = st\<rparr>" now tr]
  obtain errs C where
    "onResponseFinished opts \<lparr>cl_err = e, cl_startTime = st\<rparr> ctx' now tr
       = Done (ctx'\<lparr>log := None\<rparr>,
               tr @ errs @ [Log (the_levelFn opts ctx' e)
                              [C, JStr (the_formatResponseMessage opts ctx' C)]])"
    and "list_all is_hook_error errs"
    and "own_prop C ''err''
           = own_prop (response_fields opts \<lparr>cl_err = e, cl_startTime = st\<rparr> ctx' now) ''err''"
    by auto
  moreover from a assms(1)
  have "own_prop (response_fields opts \<lparr>cl_err = e, cl_startTime = st\<rparr> ctx' now) ''err'' = Some e"
    by (simp add: response_fields_err)
  ultimately
  show "\<exists>errs C m.
               onResponseFinished opts \<lparr>cl_err = e, cl_startTime = st\<rparr> ctx' now tr
                 = Done (ctx'\<lparr>log := None\<rparr>,
                         tr @ errs @ [Log (the_levelFn opts ctx' e) [C, JStr m]])
               \<and> list_all is_hook_error errs
               \<and> own_prop C ''err'' = Some e"
    by auto
qed

theorem handler_error_rethrown_witness:
  "truthy (JError ''oh no'')
   \<and> Next_called \<in> set (fst (requestLogger None
         (default_opts\<lparr>updateResponseLogFields := Some error_handled_hook\<rparr>) ctx0 1000
         (Some (JError ''oh no''))))
   \<and> log ctx500 = Some (Logger ''test'')
   \<and> updateResponseLogFields (default_opts\<lparr>updateResponseLogFields := Some error_handled_hook\<rparr>)
       = Some error_handled_hook
   \<and> the_durationField (default_opts\<lparr>updateResponseLogFields := Some error_handled_hook\<rparr>) \<noteq> ''err''
   \<and> hook_preserves
         (updateLogFields (default_opts\<lparr>updateResponseLogFields := Some error_handled_hook\<rparr>)) ''err''
   \<and> hook_preserves
         (updateResponseLogFields (default_opts\<lparr>updateResponseLogFields := Some error_handled_hook\<rparr>))
         ''err''
   \<and> requestLogger None (default_opts\<lparr>updateResponseLogFields := Some error_handled_hook\<rparr>)
         ctx0 1000 (Some (JError ''oh no''))
       = ([Log Info [JObj [(''req'', JObj [(''url'', JStr ''/'')])], JStr ''  <-- GET /''],
           Next_called, On_finished \<lparr>cl_err = JError ''oh no'', cl_startTime = 1000\<rparr>],
          Rejected (JError ''oh no''))
   \<and> onResponseFinished (default_opts\<lparr>updateResponseLogFields := Some error_handled_hook\<rparr>)
         \<lparr>cl_err = JError ''oh no'', cl_startTime = 1000\<rparr> ctx500 1005 []
       = Done (ctx500\<lparr>log := None\<rparr>,
           [Log Error [JObj [(''req'', JObj [(''url'', JStr ''/'')]),
                             (''res'', JObj [(''statusCode'', JNum 500)]),
                             (''err'', JError ''oh no''), (''duration'', JNum 5),
                             (''error_handled'', JBool True)],
                       JStr ''  --> GET / 500 5ms'']])
   \<and> (\<exists>errs C m.
         onResponseFinished (default_opts\<lparr>updateResponseLogFields := Some error_handled_hook\<rparr>)
             \<lparr>cl_err = JError ''oh no'', cl_startTime = 1000\<rparr> ctx500 1005 []
           = Done (ctx500\<lparr>log := None\<rparr>,
               [] @ errs @ [Log (the_levelFn
                  (default_opts\<lparr>updateResponseLogFields := Some error_handled_hook\<rparr>) ctx500
                  (JError ''oh no'')) [C, JStr m]])
         \<and> list_all is_hook_error errs
         \<and> own_prop C ''err'' = Some (JError ''oh no''))"
proof -
  let ?o = "default_opts\<lparr>updateResponseLogFields := Some error_handled_hook\<rparr>"
  let ?e = "JError ''oh no''"
  have t: "truthy ?e" by simp
  have r: "requestLogger None ?o ctx0 1000 (Some ?e)
       = ([Log Info [JObj [(''req'', JObj [(''url'', JStr ''/'')])], JStr ''  <-- GET /''],
           Next_called, On_finished \<lparr>cl_err = ?e, cl_startTime = 1000\<rparr>], Rejected ?e)"
    by (simp add: requestLogger_def Let_def updateFields_def default_opts_def ctx0_def
          the_formatRequestMessage_def)
  have n: "Next_called \<in> set (fst (requestLogger None ?o ctx0 1000 (Some ?e)))"
    by (simp add: r)
  have l: "log ctx500 = Some (Logger ''test'')" by (simp add: ctx500_def ctx0_def)
  have u: "updateResponseLogFields ?o = Some error_handled_hook" by simp
  have d: "the_durationField ?o \<noteq> ''err''" by (simp add: the_durationField_def default_opts_def)
  have p1: "hook_preserves (updateLogFields ?o) ''err''"
    by (simp add: hook_preserves_def default_opts_def)
  have p2: "hook_preserves (updateResponseLogFields ?o) ''err''"
    by (auto simp: hook_preserves_def error_handled_hook_def map_of_set_prop
             split: jsval.splits option.splits)
  have f: "onResponseFinished ?o \<lparr>cl_err = ?e, cl_startTime = 1000\<rparr> ctx500 1005 []
       = Done (ctx500\<lparr>log := None\<rparr>,
           [Log Error [JObj [(''req'', JObj [(''url'', JStr ''/'')]),
                             (''res'', JObj [(''statusCode'', JNum 500)]),
                             (''err'', JError ''oh no''), (''duration'', JNum 5),
                             (''error_handled'', JBool True)],
                       JStr ''  --> GET / 500 5ms'']])"
    by (simp add: onResponseFinished_def Let_def updateFields_def default_opts_def ctx0_def
          ctx500_def error_handled_hook_def the_formatResponseMessage_def the_levelFn_def
          the_durationField_def show_int_def show_nat.simps)
  note th = handler_error_rethrown [OF t n, where ctx' = ctx500 and now = 1005
      and l = "Logger ''test''" and h = error_handled_hook and tr = "[]"]
  from th [THEN conjunct2, THEN conjunct2, THEN conjunct2] l d p1 p2
  have x: "\<exists>errs C m.
         onResponseFinished ?o \<lparr>cl_err = ?e, cl_startTime = 1000\<rparr> ctx500 1005 []
           = Done (ctx500\<lparr>log := None\<rparr>,
               [] @ errs @ [Log (the_levelFn ?o ctx500 ?e) [C, JStr m]])
         \<and> list_all is_hook_error errs
         \<and> own_prop C ''err'' = Some ?e"
    by blast
  from t n l u d p1 p2 r f x show ?thesis by (intro conjI)
qed

text \<open>
  C2 as stated fails for a falsy thrown value: the handler chain runs and throws
  \<^verbatim>\<open>null\<close>, yet the promise is not rejected with it and the field map has no \<^verbatim>\<open>err\<close>.
\<close>

theorem falsy_throw_not_rethrown_counterexample:
  "Next_called \<in> set (fst (requestLogger None default_opts ctx0 1000 (Some JNull)))
   \<and> snd (requestLogger None default_opts ctx0 1000 (Some JNull)) \<noteq> Rejected JNull
   \<and> \<not> has_field (response_fields default_opts \<lparr>cl_err = JNull, cl_startTime = 1000\<rparr> ctx500 1005) ''err''"
  by (simp add: requestLogger_def Let_def updateFields_def default_opts_def ctx0_def ctx500_def
        the_formatRequestMessage_def the_durationField_def response_fields_def)

text \<open>
  C10, as amended. When the handler chain throws a falsy value \<open>v\<close>, \<open>requestLogger\<close>
  logs and settles as it does when the chain returns, the registered callback holding
  \<open>v\<close>, and never rejects with \<open>v\<close>; the field map of the completion callback has no
  \<^verbatim>\<open>err\<close> field; the response hook is called without an error argument; and the
  callback, and with it the whole request, does what it does for a handler that
  returned, except that \<^verbatim>\<open>levelFn\<close> is handed \<open>v\<close> where it is handed \<^verbatim>\<open>undefined\<close>
  after a return. Without a configured \<^verbatim>\<open>levelFn\<close> the two requests log the same.
\<close>

theorem falsy_throw_is_no_error:
  assumes "\<not> truthy v"
  shows "requestLogger this opts ctx st (Some v)
      = (map (with_err v) (fst (requestLogger this opts ctx st None)),
         snd (requestLogger this opts ctx st None))
    \<and> snd (requestLogger this opts ctx st (Some v)) \<noteq> Rejected v
    \<and> (the_durationField opts \<noteq> ''err''
         \<longrightarrow> own_prop (response_fields opts \<lparr>cl_err = v, cl_startTime = st\<rparr> ctx' now) ''err''
               = None)
    \<and> (log ctx' = Some l \<and> updateResponseLogFields opts = Some h
         \<longrightarrow> (\<exists>d1 errs.
               updateFields (Some ctx') (updateLogFields opts)
                   (response_fields opts \<lparr>cl_err = v, cl_startTime = st\<rparr> ctx' now) JUndefined tr
                 = Done (d1, tr @ errs)
               \<and> list_all is_hook_error errs
               \<and> onResponseFinished opts \<lparr>cl_err = v, cl_startTime = st\<rparr> ctx' now tr
                 = (case h (Some ctx') d1 None of
                      Returned w d' \<Rightarrow>
                        Done (ctx'\<lparr>log := None\<rparr>,
                              tr @ errs @ [Log (the_levelFn opts ctx' v)
                                 [if truthy w then w else d',
                                  JStr (the_formatResponseMessage opts ctx'
                                          (if truthy w then w else d'))]])
                    | Thrown x d' \<Rightarrow>
                        Done (ctx'\<lparr>log := None\<rparr>,
                              tr @ errs @ [Log Error [x],
                                           Log (the_levelFn opts ctx' v)
                                             [d', JStr (the_formatResponseMessage opts ctx' d')]]))))
    \<and> onResponseFinished opts \<lparr>cl_err = v, cl_startTime = st\<rparr> ctx' now tr
        = onResponseFinished (opts\<lparr>levelFn := Some (\<lambda>c x. the_levelFn opts c v)\<rparr>)
            \<lparr>cl_err = JUndefined, cl_startTime = st\<rparr> ctx' now tr
    \<and> request_lifecycle this opts ctx st (Some v) ctx' now
        = map (with_err v)
            (request_lifecycle this (opts\<lparr>levelFn := Some (\<lambda>c x. the_levelFn opts c v)\<rparr>)
               ctx st None ctx' now)
    \<and> (levelFn opts = None
         \<longrightarrow> request_lifecycle this opts ctx st (Some v) ctx' now
             = map (with_err v) (request_lifecycle this opts ctx st None ctx' now))"
proof (intro conjI impI)
  show "requestLogger this opts ctx st (Some v)
      = (map (with_err v) (fst (requestLogger this opts ctx st None)),
         snd (requestLogger this opts ctx st None))"
    by (rule requestLogger_falsy_trace [OF assms])
next
  show "snd (requestLogger this opts ctx st (Some v)) \<noteq> Rejected v"
    using requestLogger_settled [of this opts ctx st "Some v"] assms by auto
next
  assume "the_durationField opts \<noteq> ''err''"
  with assms
  show "own_prop (response_fields opts \<lparr>cl_err = v, cl_startTime = st\<rparr> ctx' now) ''err'' = None"
    by (rule response_fields_no_err)
next
  assume a: "log ctx' = Some l \<and> updateResponseLogFields opts = Some h"
  from a onResponseFinished_response_hook
    [of ctx' l opts h "\<lparr>cl_err = v, cl_startTime = st\<rparr>" v now tr] assms
  show "\<exists>d1 errs.
               updateFields (Some ctx') (updateLogFields opts)
                   (response_fields opts \<lparr>cl_err = v, cl_startTime = st\<rparr> ctx' now) JUndefined tr
                 = Done (d1, tr @ errs)
               \<and> list_all is_hook_error errs
               \<and> onResponseFinished opts \<lparr>cl_err = v, cl_startTime = st\<rparr> ctx' now tr
                 = (case h (Some ctx') d1 None of
                      Returned w d' \<Rightarrow>
                        Done (ctx'\<lparr>log := None\<rparr>,
                              tr @ errs @ [Log (the_levelFn opts ctx' v)
                                 [if truthy w then w else d',
                                  JStr (the_formatResponseMessage opts ctx'
                                          (if truthy w then w else d'))]])
                    | Thrown x d' \<Rightarrow>
                        Done (ctx'\<lparr>log := None\<rparr>,
                              tr @ errs @ [Log Error [x],
                                           Log (the_levelFn opts ctx' v)
                                             [d', JStr (the_formatResponseMessage opts ctx' d')]]))"
    by (simp add: hook_call_def)
next
  show "onResponseFinished opts \<lparr>cl_err = v, cl_startTime = st\<rparr> ctx' now tr
        = onResponseFinished (opts\<lparr>levelFn := Some (\<lambda>c x. the_levelFn opts c v)\<rparr>)
            \<lparr>cl_err = JUndefined, cl_startTime = st\<rparr> ctx' now tr"
    by (rule onResponseFinished_falsy [OF assms])
next
  show "request_lifecycle this opts ctx st (Some v) ctx' now
        = map (with_err v)
            (request_lifecycle this (opts\<lparr>levelFn := Some (\<lambda>c x. the_levelFn opts c v)\<rparr>)
               ctx st None ctx' now)"
    by (rule request_lifecycle_falsy [OF assms])
next
  assume n: "levelFn opts = None"
  have "(\<lambda>c x. the_levelFn opts c v) = the_levelFn opts"
    using n by (simp add: the_levelFn_def fun_eq_iff)
  with request_lifecycle_falsy [OF assms, of this opts ctx st ctx' now]
    request_lifecycle_levelFn_eta [of this opts ctx st None ctx' now]
  show "request_lifecycle this opts ctx st (Some v) ctx' now
             = map (with_err v) (request_lifecycle this opts ctx st None ctx' now)"
    by simp
qed

theorem falsy_throw_is_no_error_witness:
  "\<not> truthy (JNum 0)
   \<and> requestLogger None default_opts ctx0 1000 (Some (JNum 0))
      = ([Log Info [JObj [(''req'', JObj [(''url'', JStr ''/'')])], JStr ''  <-- GET /''],
          Next_called, On_finished \<lparr>cl_err = JNum 0, cl_startTime = 1000\<rparr>], Resolved)
   \<and> requestLogger None default_opts ctx0 1000 (Some (JNum 0))
      = (map (with_err (JNum 0)) (fst (requestLogger None default_opts ctx0 1000 None)),
         snd (requestLogger None default_opts ctx0 1000 None))
   \<and> snd (requestLogger None default_opts ctx0 1000 (Some (JNum 0))) \<noteq> Rejected (JNum 0)
   \<and> the_durationField default_opts \<noteq> ''err''
   \<and> own_prop (response_fields default_opts \<lparr>cl_err = JNum 0, cl_startTime = 1000\<rparr> ctx0 1005) ''err''
      = None
   \<and> levelFn default_opts = None
   \<and> request_lifecycle None default_opts ctx0 1000 (Some (JNum 0)) ctx0 1005
      = map (with_err (JNum 0)) (request_lifecycle None default_opts ctx0 1000 None ctx0 1005)
   \<and> request_lifecycle None default_opts ctx0 1000 (Some (JNum 0)) ctx0 1005
      = [Log Info [JObj [(''req'', JObj [(''url'', JStr ''/'')])], JStr ''  <-- GET /''],
         Next_called, On_finished \<lparr>cl_err = JNum 0, cl_startTime = 1000\<rparr>, Finish_signal,
         Log Info [JObj [(''req'', JObj [(''url'', JStr ''/'')]),
                         (''res'', JObj [(''statusCode'', JNum 200)]), (''duration'', JNum 5)],
                   JStr ''  --> GET / 200 5ms'']]"
proof -
  have h: "\<not> truthy (JNum 0)" by simp
  note t = falsy_throw_is_no_error [OF h, of None default_opts ctx0 1000 ctx0 1005
      "Logger ''test''" error_handled_hook "[]"]
  have r: "requestLogger None default_opts ctx0 1000 (Some (JNum 0))
      = ([Log Info [JObj [(''req'', JObj [(''url'', JStr ''/'')])], JStr ''  <-- GET /''],
          Next_called, On_finished \<lparr>cl_err = JNum 0, cl_startTime = 1000\<rparr>], Resolved)"
    by (simp add: requestLogger_def Let_def updateFields_def default_opts_def ctx0_def
          the_formatRequestMessage_def)
  have d: "the_durationField default_opts \<noteq> ''err''"
    by (simp add: the_durationField_def default_opts_def)
  have l: "levelFn default_opts = None"
    by (simp add: default_opts_def)
  have a: "requestLogger None default_opts ctx0 1000 (Some (JNum 0))
      = (map (with_err (JNum 0)) (fst (requestLogger None default_opts ctx0 1000 None)),
         snd (requestLogger None default_opts ctx0 1000 None))"
    by (rule t [THEN conjunct1])
  have b: "snd (requestLogger None default_opts ctx0 1000 (Some (JNum 0))) \<noteq> Rejected (JNum 0)"
    by (rule t [THEN conjunct2, THEN conjunct1])
  have c: "own_prop (response_fields default_opts \<lparr>cl_err = JNum 0, cl_startTime = 1000\<rparr> ctx0 1005)
             ''err'' = None"
    using t [THEN conjunct2, THEN conjunct2, THEN conjunct1] d by (rule mp)
  have f: "request_lifecycle None default_opts ctx0 1000 (Some (JNum 0)) ctx0 1005
      = map (with_err (JNum 0)) (request_lifecycle None default_opts ctx0 1000 None ctx0 1005)"
    using t [THEN conjunct2, THEN conjunct2, THEN conjunct2, THEN conjunct2, THEN conjunct2,
             THEN conjunct2] l
    by (rule mp)
  have g: "request_lifecycle None default_opts ctx0 1000 (Some (JNum 0)) ctx0 1005
      = [Log Info [JObj [(''req'', JObj [(''url'', JStr ''/'')])], JStr ''  <-- GET /''],
         Next_called, On_finished \<lparr>cl_err = JNum 0, cl_startTime = 1000\<rparr>, Finish_signal,
         Log Info [JObj [(''req'', JObj [(''url'', JStr ''/'')]),
                         (''res'', JObj [(''statusCode'', JNum 200)]), (''duration'', JNum 5)],
                   JStr ''  --> GET / 200 5ms'']]"
    by (simp add: request_lifecycle_def requestLogger_def onResponseFinished_def Let_def
          updateFields_def default_opts_def ctx0_def the_formatRequestMessage_def
          the_formatResponseMessage_def the_levelFn_def the_durationField_def
          show_int_def show_nat.simps)
  from h r a b d c l f g show ?thesis by (intro conjI)
qed

text \<open>
  C10 as stated fails with a level function that reads its error argument: the handler
  throws 0, \<^verbatim>\<open>levelFn(ctx, 0)\<close> answers \<^verbatim>\<open>fatal\<close>, and the completion record is logged
  at that level, where the request of a handler that returned is logged at \<^verbatim>\<open>debug\<close>.
\<close>

theorem falsy_throw_levelFn_counterexample:
  "request_lifecycle None (default_opts\<lparr>levelFn := Some zero_levelFn\<rparr>) ctx0 1000
       (Some (JNum 0)) ctx0 1005
     = [Log Info [JObj [(''req'', JObj [(''url'', JStr ''/'')])], JStr ''  <-- GET /''],
        Next_called, On_finished \<lparr>cl_err = JNum 0, cl_startTime = 1000\<rparr>, Finish_signal,
        Log Fatal [JObj [(''req'', JObj [(''url'', JStr ''/'')]),
                         (''res'', JObj [(''statusCode'', JNum 200)]), (''duration'', JNum 5)],
                   JStr ''  --> GET / 200 5ms'']]
   \<and> request_lifecycle None (default_opts\<lparr>levelFn := Some zero_levelFn\<rparr>) ctx0 1000
       None ctx0 1005
     = [Log Info [JObj [(''req'', JObj [(''url'', JStr ''/'')])], JStr ''  <-- GET /''],
        Next_called, On_finished \<lparr>cl_err = JUndefined, cl_startTime = 1000\<rparr>, Finish_signal,
        Log Debug [JObj [(''req'', JObj [(''url'', JStr ''/'')]),
                         (''res'', JObj [(''statusCode'', JNum 200)]), (''duration'', JNum 5)],
                   JStr ''  --> GET / 200 5ms'']]"
  by (simp add: request_lifecycle_def requestLogger_def onResponseFinished_def Let_def
        updateFields_def default_opts_def ctx0_def the_formatRequestMessage_def
        the_formatResponseMessage_def the_levelFn_def the_durationField_def zero_levelFn_def
        show_int_def show_nat.simps)

section \<open>Duration\<close>

text \<open>
  C9, as amended. When the clock reading at the transport-finish callback is not
  earlier than the start reading, the duration field is not named \<^verbatim>\<open>__proto__\<close>, a
  logger is attached and neither response-phase hook changes the duration field, the
  callback emits one completion record, and the value of its duration field is the
  number \<open>now - startTime\<close>, which is not negative.
\<close>

theorem duration_nonnegative:
  assumes "cl_startTime c \<le> now"
    and "log ctx = Some l"
    and "the_durationField opts \<noteq> ''__proto__''"
    and "hook_preserves (updateLogFields opts) (the_durationField opts)"
    and "hook_preserves (updateResponseLogFields opts) (the_durationField opts)"
  shows "\<exists>errs C m n.
      onResponseFinished opts c ctx now tr
        = Done (ctx\<lparr>log := None\<rparr>,
                tr @ errs @ [Log (the_levelFn opts ctx (cl_err c)) [C, JStr m]])
      \<and> list_all is_hook_error errs
      \<and> own_prop C (the_durationField opts) = Some (JNum n)
      \<and> n = now - cl_startTime c
      \<and> 0 \<le> n"
proof -
  from onResponseFinished_preserves [OF assms(2) assms(4) assms(5), of c now tr]
  obtain errs C where
    f: "onResponseFinished opts c ctx now tr
       = Done (ctx\<lparr>log := None\<rparr>,
               tr @ errs @ [Log (the_levelFn opts ctx (cl_err c))
                              [C, JStr (the_formatResponseMessage opts ctx C)]])"
    and h: "list_all is_hook_error errs"
    and p: "own_prop C (the_durationField opts)
           = own_prop (response_fields opts c ctx now) (the_durationField opts)"
    by blast
  from p response_fields_duration [OF assms(3), of c ctx now]
  have v: "own_prop C (the_durationField opts) = Some (JNum (now - cl_startTime c))" by simp
  from assms(1) have z: "0 \<le> now - cl_startTime c" by simp
  from f h v z show ?thesis by blast
qed

theorem duration_nonnegative_witness:
  "cl_startTime \<lparr>cl_err = JError ''uh oh'', cl_startTime = 1000\<rparr> \<le> 1005
   \<and> log ctx500 = Some (Logger ''test'')
   \<and> the_durationField test_opts \<noteq> ''__proto__''
   \<and> hook_preserves (updateLogFields test_opts) (the_durationField test_opts)
   \<and> hook_preserves (updateResponseLogFields test_opts) (the_durationField test_opts)
   \<and> onResponseFinished test_opts \<lparr>cl_err = JError ''uh oh'', cl_startTime = 1000\<rparr> ctx500 1005 []
       = Done (ctx500\<lparr>log := None\<rparr>,
           [Log Error [JObj [(''req'', JObj [(''url'', JStr ''/'')]),
                             (''res'', JObj [(''statusCode'', JNum 500)]),
                             (''err'', JError ''uh oh''), (''duration'', JNum 5),
                             (''foo'', JStr ''bar''), (''baz1'', JStr ''fizz''),
                             (''addedToRes'', JStr ''world''), (''error_handled'', JBool True)],
                       JStr ''  --> GET / 500 5ms'']])
   \<and> (\<exists>errs C m n.
         onResponseFinished test_opts \<lparr>cl_err = JError ''uh oh'', cl_startTime = 1000\<rparr> ctx500 1005 []
           = Done (ctx500\<lparr>log := None\<rparr>,
               [] @ errs @ [Log (the_levelFn test_opts ctx500
                                   (cl_err \<lparr>cl_err = JError ''uh oh'', cl_startTime = 1000\<rparr>))
                              [C, JStr m]])
         \<and> list_all is_hook_error errs
         \<and> own_prop C (the_durationField test_opts) = Some (JNum n)
         \<and> n = 1005 - cl_startTime \<lparr>cl_err = JError ''uh oh'', cl_startTime = 1000\<rparr>
         \<and> 0 \<le> n)"
proof -
  let ?c = "\<lparr>cl_err = JError ''uh oh'', cl_startTime = 1000\<rparr>"
  have s: "cl_startTime ?c \<le> 1005" by simp
  have l: "log ctx500 = Some (Logger ''test'')" by (simp add: ctx500_def ctx0_def)
  have df: "the_durationField test_opts = ''duration''"
    by (simp add: the_durationField_def test_opts_def default_opts_def)
  have d: "the_durationField test_opts \<noteq> ''__proto__''" by (simp add: df)
  have g1: "updateLogFields test_opts = Some test_updateLogFields"
    by (simp add: test_opts_def)
  have g2: "updateResponseLogFields test_opts = Some test_updateResponseLogFields"
    by (simp add: test_opts_def)
  have p1: "hook_preserves (updateLogFields test_opts) (the_durationField test_opts)"
    unfolding df g1
    by (auto simp: hook_preserves_def test_updateLogFields_def map_of_set_prop
             split: jsval.splits)
  have p2: "hook_preserves (updateResponseLogFields test_opts) (the_durationField test_opts)"
    unfolding df g2
    by (auto simp: hook_preserves_def test_updateResponseLogFields_def Let_def
             map_of_set_prop map_of_del_prop split: jsval.splits option.splits)
  have f: "onResponseFinished test_opts ?c ctx500 1005 []
       = Done (ctx500\<lparr>log := None\<rparr>,
           [Log Error [JObj [(''req'', JObj [(''url'', JStr ''/'')]),
                             (''res'', JObj [(''statusCode'', JNum 500)]),
                             (''err'', JError ''uh oh''), (''duration'', JNum 5),
                             (''foo'', JStr ''bar''), (''baz1'', JStr ''fizz''),
                             (''addedToRes'', JStr ''world''), (''error_handled'', JBool True)],
                       JStr ''  --> GET / 500 5ms'']])"
    by (simp add: onResponseFinished_def Let_def updateFields_def test_opts_def default_opts_def
          ctx0_def ctx500_def test_updateLogFields_def test_updateResponseLogFields_def
          del_prop_def the_formatResponseMessage_def the_levelFn_def the_durationField_def
          show_int_def show_nat.simps)
  note th = duration_nonnegative [OF s l d p1 p2, of "[]"]
  from s l d p1 p2 f th show ?thesis by (intro conjI)
qed

text \<open>
  C9 as stated fails when the wall clock is set back between the two readings of
  \<^verbatim>\<open>new Date().getTime()\<close>: start 1000, finish 990, duration -10 in the record.
\<close>

theorem clock_step_back_counterexample:
  "onResponseFinished default_opts \<lparr>cl_err = JUndefined, cl_startTime = 1000\<rparr> ctx0 990 []
     = Done (ctx0\<lparr>log := None\<rparr>,
         [Log Info [JObj [(''req'', JObj [(''url'', JStr ''/'')]),
                          (''res'', JObj [(''statusCode'', JNum 200)]),
                          (''duration'', JNum (- 10))],
                    JStr ''  --> GET / 200 -10ms'']])"
  by (simp add: onResponseFinished_def Let_def updateFields_def default_opts_def ctx0_def
        the_formatResponseMessage_def the_levelFn_def the_durationField_def
        show_int_def show_nat.simps)

section \<open>Ordering of the two records\<close>

text \<open>
  C3. The claim is that every request gets exactly one completion record, after the
  handler chain and after the finish signal, and after its start record. When a
  request-phase hook throws under koa-compose (\<^verbatim>\<open>this\<close> is \<^verbatim>\<open>undefined\<close>),
  \<open>requestLogger\<close> is left by the \<^verbatim>\<open>TypeError\<close> of the \<^verbatim>\<open>catch\<close> block before line
  147 and before line 187: this theorem evaluates such a request, which gets no start
  record and, after the finish signal, no completion record. For requests that reach the
  handler chain the claim holds, as lemma \<open>request_lifecycle_order\<close> shows.
\<close>

theorem request_phase_crash_no_completion:
  "request_lifecycle None (default_opts\<lparr>updateLogFields := Some throwing_hook\<rparr>)
      ctx0 1000 None ctx0 1005 = [Finish_signal]
   \<and> records (request_lifecycle None (default_opts\<lparr>updateLogFields := Some throwing_hook\<rparr>)
        ctx0 1000 None ctx0 1005) = []"
  by (simp add: requestLogger_def request_lifecycle_def updateFields_def default_opts_def
        throwing_hook_def)

section \<open>Hook composition\<close>




text \<open>
  The condition on the response-phase hooks cannot be dropped. A global hook that
  returns one object of its own on every call hands that object to the request hook,
  which adds \<^verbatim>\<open>addedToReq\<close> to it; in the response phase the global hook returns the
  same object, and the field the request hook added is in the completion record.
\<close>

lemma shared_object_carries_request_fields:
  "request_lifecycle_h None default_opts shared_hooks_h ctx0 1000 None ctx0 1005 shared_heap
     = [Log Info [JObj [(''foo'', JStr ''bar''), (''addedToReq'', JStr ''hello'')],
                  JStr ''  <-- GET /''],
        Next_called, On_finished \<lparr>cl_err = JUndefined, cl_startTime = 1000\<rparr>, Finish_signal,
        Log Info [JObj [(''foo'', JStr ''bar''), (''addedToReq'', JStr ''hello'')],
                  JStr ''  --> GET / 200 undefinedms'']]"
  by (simp add: request_lifecycle_h_def requestLogger_h_def onResponseFinished_h_def Let_def
        updateFields_h_def alloc_def deref_def shared_hooks_h_def shared_object_hook_def
        shared_heap_def default_opts_def ctx0_def test_updateRequestLogFields_h_def del_prop_def
        the_formatRequestMessage_def the_formatResponseMessage_def the_levelFn_def
        the_durationField_def show_int_def show_nat.simps)

section \<open>Labeled timers\<close>

text \<open>
  With a logger attached: when the table owns a non-zero start time for the label,
  \<open>time\<close> logs one warn-level call whose message is
  \<^verbatim>\<open>time() called for previously used label\<close> followed by the label, then stores the
  current reading as the label's start time and leaves every other label as it was; and
  \<open>time\<close> returns normally for every label.
\<close>

lemma time_warns_on_open_label:
  assumes "log ctx = Some l"
    and "wf_times (timeContextStartTimes ctx)"
    and "own (timeContextStartTimes ctx) label = Some (Stamp t)"
    and "t \<noteq> 0"
  shows "time ctx label now tr
      = Done (ctx\<lparr>timeContextStartTimes := store (timeContextStartTimes ctx) label (Stamp now)\<rparr>,
              tr @ [Log Warn [JStr ''time() called for previously used label %s'', JStr label]])
    \<and> message [JStr ''time() called for previously used label %s'', JStr label]
        = ''time() called for previously used label '' @ label
    \<and> lookup (store (timeContextStartTimes ctx) label (Stamp now)) label = Some (Stamp now)
    \<and> (other \<noteq> label
         \<longrightarrow> lookup (store (timeContextStartTimes ctx) label (Stamp now)) other
             = lookup (timeContextStartTimes ctx) other)
    \<and> (\<exists>c tr'. time ctx label' now' tr0 = Done (c, tr'))"
proof -
  have a: "time ctx label now tr
      = Done (ctx\<lparr>timeContextStartTimes := store (timeContextStartTimes ctx) label (Stamp now)\<rparr>,
              tr @ [Log Warn [JStr ''time() called for previously used label %s'', JStr label]])"
    using assms by (simp add: time_def Let_def lookup_own)
  have b: "lookup (store (timeContextStartTimes ctx) label (Stamp now)) label = Some (Stamp now)"
    using assms by (simp add: lookup_store_same)
  have c: "other \<noteq> label
         \<longrightarrow> lookup (store (timeContextStartTimes ctx) label (Stamp now)) other
             = lookup (timeContextStartTimes ctx) other"
    using assms by (simp add: lookup_store_other)
  from a message_time b c time_total [OF assms(1)] show ?thesis by (intro conjI)
qed

lemma time_warns_on_open_label_example:
  "time (timeContext ctx0) ''x'' 1000 [] = Done (ctx_x, [])
   \<and> log ctx_x = Some (Logger ''test'')
   \<and> wf_times (timeContextStartTimes ctx_x)
   \<and> own (timeContextStartTimes ctx_x) ''x'' = Some (Stamp 1000)
   \<and> (1000::int) \<noteq> 0
   \<and> time ctx_x ''x'' 1005 []
      = Done (ctx_x\<lparr>timeContextStartTimes := store (timeContextStartTimes ctx_x) ''x'' (Stamp 1005)\<rparr>,
              [Log Warn [JStr ''time() called for previously used label %s'', JStr ''x'']])
   \<and> message [JStr ''time() called for previously used label %s'', JStr ''x'']
        = ''time() called for previously used label x''
   \<and> lookup (store (timeContextStartTimes ctx_x) ''x'' (Stamp 1005)) ''x'' = Some (Stamp 1005)"
proof -
  have r: "time (timeContext ctx0) ''x'' 1000 [] = Done (ctx_x, [])"
    by (simp add: time_def timeContext_def ctx0_def ctx_x_def lookup_def empty_times_def
          object_prototype_names_def)
  have l: "log ctx_x = Some (Logger ''test'')" by (simp add: ctx_x_def ctx0_def)
  have w: "wf_times (timeContextStartTimes ctx_x)"
    by (simp add: ctx_x_def wf_times_store wf_times_empty)
  have o: "own (timeContextStartTimes ctx_x) ''x'' = Some (Stamp 1000)"
    by (simp add: ctx_x_def store_def empty_times_def)
  have n: "(1000::int) \<noteq> 0" by simp
  note t = time_warns_on_open_label [OF l w o n, of 1005 "[]" "''y''" "''x''" 1005 "[]"]
  from r l w o n t [THEN conjunct1] t [THEN conjunct2, THEN conjunct1]
    t [THEN conjunct2, THEN conjunct2, THEN conjunct1]
  show ?thesis by simp
qed

text \<open>
  C5. The claim is that \<open>time\<close> on a label with an unfinished entry warns and then
  overwrites the start time, for every label. Whether there is an entry is decided by
  the truthiness of \<^verbatim>\<open>startTimes[label]\<close> (line 242), so an entry whose start time is 0
  is read as no entry. This theorem evaluates \<^verbatim>\<open>ctx.time('x')\<close> at clock reading 0
  followed by \<^verbatim>\<open>ctx.time('x')\<close> at clock reading 5: the table owns the entry for
  \<^verbatim>\<open>x\<close> with no \<open>timeEnd\<close> in between, and the second call logs no warning. For an
  entry with a non-zero start time the code does what the claim says, as lemma
  \<open>time_warns_on_open_label\<close> shows.
\<close>

theorem time_zero_stamp_no_warning:
  "time (timeContext ctx0) ''x'' 0 [] = Done (ctx_z, [])
   \<and> own (timeContextStartTimes ctx_z) ''x'' = Some (Stamp 0)
   \<and> time ctx_z ''x'' 5 []
      = Done (ctx_z\<lparr>timeContextStartTimes := store (timeContextStartTimes ctx_z) ''x'' (Stamp 5)\<rparr>, [])"
  by (simp add: time_def timeContext_def ctx0_def ctx_z_def lookup_def store_def empty_times_def
        object_prototype_names_def)

text \<open>
  C6. The claim is that \<open>timeEnd\<close> on a label without an open entry warns and does
  nothing else, for every label. The table is a plain object, so for a label that names
  a member of \<^verbatim>\<open>Object.prototype\<close> the read \<^verbatim>\<open>startTimes[label]\<close> yields the inherited
  function, which is truthy. This theorem evaluates \<^verbatim>\<open>ctx.timeEnd('toString')\<close> on a
  fresh table: no warning, one trace-level duration record with duration \<^verbatim>\<open>NaN\<close>, and
  the table changed. For all other labels the claim holds, as lemma
  \<open>timeEnd_without_time_warns\<close> shows.
\<close>

theorem timeEnd_inherited_label_no_warning:
  "own (timeContextStartTimes (timeContext ctx0)) ''toString'' = None
   \<and> timeEnd default_timer_opts (timeContext ctx0) ''toString'' 1000 []
     = Done (ctx0\<lparr>timeContextStartTimes := store empty_times ''toString'' Cleared\<rparr>,
             [Log Trace [JObj [(''label'', JStr ''toString''), (''duration'', JNaN),
                               (''msg'', JStr ''toString: NaNms'')]]])"
  by (simp add: timeEnd_def timeContext_def ctx0_def lookup_def empty_times_def
        object_prototype_names_def default_timer_opts_def the_logLevel_def updateFields_def)

text \<open>
  With a logger attached: when the table owns a non-zero start time \<open>t\<close> for the label,
  \<open>timeEnd\<close> builds the fields \<^verbatim>\<open>label\<close>, \<^verbatim>\<open>duration\<close> = \<open>now - t\<close> and \<^verbatim>\<open>msg\<close>, hands
  them to the hook runner, logs the runner's result in one call at the configured level
  (\<^verbatim>\<open>trace\<close> when none is configured), after the error record of a hook that threw,
  and sets the entry to \<^verbatim>\<open>null\<close>: a following \<open>timeEnd\<close> for the label takes the
  warning path and a following \<open>time\<close> logs no warning.
\<close>

lemma timeEnd_emits_duration:
  assumes "log ctx = Some l"
    and "wf_times (timeContextStartTimes ctx)"
    and "own (timeContextStartTimes ctx) label = Some (Stamp t)"
    and "t \<noteq> 0"
  shows "\<exists>fields' errs.
      updateFields (Some ctx) (timer_updateLogFields opts)
          (JObj [(''label'', JStr label), (''duration'', JNum (now - t)),
                 (''msg'', JStr (label @ '': '' @ show_int (now - t) @ ''ms''))]) JUndefined tr
        = Done (fields', tr @ errs)
      \<and> list_all is_hook_error errs
      \<and> timeEnd opts ctx label now tr
          = Done (ctx\<lparr>timeContextStartTimes := store (timeContextStartTimes ctx) label Cleared\<rparr>,
                  tr @ errs @ [Log (the_logLevel opts) [fields']])
      \<and> (logLevel opts = None \<longrightarrow> the_logLevel opts = Trace)
      \<and> lookup (store (timeContextStartTimes ctx) label Cleared) label = Some Cleared
      \<and> timeEnd opts
            (ctx\<lparr>timeContextStartTimes := store (timeContextStartTimes ctx) label Cleared\<rparr>)
            label now' tr'
          = Done (ctx\<lparr>timeContextStartTimes := store (timeContextStartTimes ctx) label Cleared\<rparr>,
                  tr' @ [Log Warn [JStr ''timeEnd() called without time() for label %s'', JStr label]])
      \<and> time (ctx\<lparr>timeContextStartTimes := store (timeContextStartTimes ctx) label Cleared\<rparr>)
            label now' tr'
          = Done (ctx\<lparr>timeContextStartTimes :=
                       store (store (timeContextStartTimes ctx) label Cleared) label (Stamp now')\<rparr>,
                  tr')"
proof -
  let ?st = "timeContextStartTimes ctx"
  let ?fields = "JObj [(''label'', JStr label), (''duration'', JNum (now - t)),
                 (''msg'', JStr (label @ '': '' @ show_int (now - t) @ ''ms''))]"
  from updateFields_total [OF assms(1)]
  obtain fields' errs where u: "updateFields (Some ctx) (timer_updateLogFields opts) ?fields JUndefined tr
        = Done (fields', tr @ errs)" and h: "list_all is_hook_error errs"
    by blast
  have lk: "lookup ?st label = Some (Stamp t)" using assms(3) by (rule lookup_own)
  have e: "timeEnd opts ctx label now tr
          = Done (ctx\<lparr>timeContextStartTimes := store ?st label Cleared\<rparr>,
                  tr @ errs @ [Log (the_logLevel opts) [fields']])"
    using assms u lk by (simp add: timeEnd_def Let_def)
  have d: "logLevel opts = None \<longrightarrow> the_logLevel opts = Trace"
    by (simp add: the_logLevel_def)
  have c: "lookup (store ?st label Cleared) label = Some Cleared"
    using assms by (simp add: lookup_store_same)
  have e2: "timeEnd opts (ctx\<lparr>timeContextStartTimes := store ?st label Cleared\<rparr>) label now' tr'
          = Done (ctx\<lparr>timeContextStartTimes := store ?st label Cleared\<rparr>,
                  tr' @ [Log Warn [JStr ''timeEnd() called without time() for label %s'', JStr label]])"
    using assms(1) c by (simp add: timeEnd_def Let_def)
  have t2: "time (ctx\<lparr>timeContextStartTimes := store ?st label Cleared\<rparr>) label now' tr'
          = Done (ctx\<lparr>timeContextStartTimes := store (store ?st label Cleared) label (Stamp now')\<rparr>,
                  tr')"
    using assms(1) c by (simp add: time_def Let_def)
  show ?thesis
    by (rule exI [of _ fields'], rule exI [of _ errs]) (intro conjI u h e d c e2 t2)
qed

lemma timeEnd_emits_duration_example:
  "log ctx_x = Some (Logger ''test'')
   \<and> wf_times (timeContextStartTimes ctx_x)
   \<and> own (timeContextStartTimes ctx_x) ''x'' = Some (Stamp 1000)
   \<and> (1000::int) \<noteq> 0
   \<and> timeEnd default_timer_opts ctx_x ''x'' 1007 []
      = Done (ctx_x\<lparr>timeContextStartTimes := store (timeContextStartTimes ctx_x) ''x'' Cleared\<rparr>,
              [Log Trace [JObj [(''label'', JStr ''x''), (''duration'', JNum 7),
                                (''msg'', JStr ''x: 7ms'')]]])
   \<and> timeEnd default_timer_opts
        (ctx_x\<lparr>timeContextStartTimes := store (timeContextStartTimes ctx_x) ''x'' Cleared\<rparr>)
        ''x'' 1010 []
      = Done (ctx_x\<lparr>timeContextStartTimes := store (timeContextStartTimes ctx_x) ''x'' Cleared\<rparr>,
              [Log Warn [JStr ''timeEnd() called without time() for label %s'', JStr ''x'']])"
proof -
  have l: "log ctx_x = Some (Logger ''test'')" by (simp add: ctx_x_def ctx0_def)
  have w: "wf_times (timeContextStartTimes ctx_x)"
    by (simp add: ctx_x_def wf_times_store wf_times_empty)
  have o: "own (timeContextStartTimes ctx_x) ''x'' = Some (Stamp 1000)"
    by (simp add: ctx_x_def store_def empty_times_def)
  have n: "(1000::int) \<noteq> 0" by simp
  from timeEnd_emits_duration [OF l w o n, where opts = default_timer_opts and now = 1007
      and tr = "[]" and now' = 1010 and tr' = "[]"]
  obtain fields' errs where
    u: "updateFields (Some ctx_x) (timer_updateLogFields default_timer_opts)
          (JObj [(''label'', JStr ''x''), (''duration'', JNum (1007 - 1000)),
                 (''msg'', JStr (''x'' @ '': '' @ show_int (1007 - 1000) @ ''ms''))]) JUndefined []
        = Done (fields', [] @ errs)"
    and e: "timeEnd default_timer_opts ctx_x ''x'' 1007 []
          = Done (ctx_x\<lparr>timeContextStartTimes := store (timeContextStartTimes ctx_x) ''x'' Cleared\<rparr>,
                  [] @ errs @ [Log (the_logLevel default_timer_opts) [fields']])"
    and e2: "timeEnd default_timer_opts
            (ctx_x\<lparr>timeContextStartTimes := store (timeContextStartTimes ctx_x) ''x'' Cleared\<rparr>)
            ''x'' 1010 []
          = Done (ctx_x\<lparr>timeContextStartTimes := store (timeContextStartTimes ctx_x) ''x'' Cleared\<rparr>,
                  [] @ [Log Warn [JStr ''timeEnd() called without time() for label %s'', JStr ''x'']])"
    by (elim exE conjE)
  from u have f: "fields' = JObj [(''label'', JStr ''x''), (''duration'', JNum 7),
                                (''msg'', JStr ''x: 7ms'')]" and r: "errs = []"
    by (simp_all add: updateFields_def default_timer_opts_def show_int_def show_nat.simps)
  from e f r have e': "timeEnd default_timer_opts ctx_x ''x'' 1007 []
      = Done (ctx_x\<lparr>timeContextStartTimes := store (timeContextStartTimes ctx_x) ''x'' Cleared\<rparr>,
              [Log Trace [JObj [(''label'', JStr ''x''), (''duration'', JNum 7),
                                (''msg'', JStr ''x: 7ms'')]]])"
    by (simp add: the_logLevel_def default_timer_opts_def)
  from e2 have e2': "timeEnd default_timer_opts
        (ctx_x\<lparr>timeContextStartTimes := store (timeContextStartTimes ctx_x) ''x'' Cleared\<rparr>)
        ''x'' 1010 []
      = Done (ctx_x\<lparr>timeContextStartTimes := store (timeContextStartTimes ctx_x) ''x'' Cleared\<rparr>,
              [Log Warn [JStr ''timeEnd() called without time() for label %s'', JStr ''x'']])"
    by simp
  from l w o n e' e2' show ?thesis by (intro conjI)
qed

text \<open>
  C7. The claim is that \<open>timeEnd\<close> on a label with a matching entry computes the
  duration, deletes the entry and emits one duration record, for every such label.
  Whether there is an entry is decided by \<^verbatim>\<open>if (!startTime)\<close> (line 253), so an entry
  whose start time is 0 is read as no entry. This theorem evaluates \<^verbatim>\<open>ctx.time('x')\<close>
  at clock reading 0 followed by \<^verbatim>\<open>ctx.timeEnd('x')\<close> at clock reading 5: the table
  owns the entry for \<^verbatim>\<open>x\<close>, and \<open>timeEnd\<close> logs the warning
  \<^verbatim>\<open>timeEnd() called without time() for label x\<close>, emits no duration record and leaves
  the entry in place. For an entry with a non-zero start time the code does what the
  claim says, as lemma \<open>timeEnd_emits_duration\<close> shows.
\<close>

theorem timeEnd_zero_stamp_warns:
  "time (timeContext ctx0) ''x'' 0 [] = Done (ctx_z, [])
   \<and> own (timeContextStartTimes ctx_z) ''x'' = Some (Stamp 0)
   \<and> timeEnd default_timer_opts ctx_z ''x'' 5 []
      = Done (ctx_z, [Log Warn [JStr ''timeEnd() called without time() for label %s'', JStr ''x'']])"
  by (simp add: time_def timeEnd_def timeContext_def ctx0_def ctx_z_def lookup_def store_def
        empty_times_def object_prototype_names_def)

end
